theory Spec2Isabelle
  imports Main
begin

section \<open>Data model of migrate.py\<close>

text \<open>
  Keys and serialized values are Python \<open>bytes\<close>: lists of 8-bit characters.
  Sizes, lifetimes and cursors are Python integers, hence \<open>int\<close>.
\<close>

type_synonym key = string
type_synonym bytes = string

text \<open>
  The exceptions the program distinguishes. The handlers of \<open>migrate_redis_keys\<close>
  (lines 104-109) separate \<open>redis.AuthenticationError\<close>, any other
  \<open>redis.RedisError\<close>, and every other \<open>Exception\<close>; \<open>bytes.decode\<close> raises
  \<open>UnicodeDecodeError\<close>, which is of the last kind.
\<close>

datatype error = AuthenticationError | RedisError string | UnicodeDecodeError | OtherError string

text \<open>The dictionary \<open>{"name": key, "size": key_size}\<close> of line 80.\<close>

record key_info =
  name :: key
  size_bytes :: int

text \<open>
  The call \<open>pipe.restore(name=key, ttl=ttl, value=dumped_value, replace=True)\<close> of line 87,
  as it is queued on the pipeline. \<open>dump\<close> returns \<open>None\<close> for a key that does not
  exist, so the value is optional.
\<close>

record restore_cmd =
  r_name :: key
  r_ttl :: int
  r_value :: "bytes option"
  r_replace :: bool

text \<open>
  The source connection: the five queries the program sends to it. Each either raises
  (\<open>Inl\<close>) or returns (\<open>Inr\<close>). \<open>memory_usage\<close> and \<open>dump\<close> return \<open>None\<close> for a key
  that does not exist; \<open>key_type\<close> is \<open>source_redis.type(key).decode()\<close>.
\<close>

record source =
  scan :: "int \<Rightarrow> int \<Rightarrow> error + (int \<times> key list)"
  memory_usage :: "key \<Rightarrow> error + int option"
  dump :: "key \<Rightarrow> error + bytes option"
  ttl :: "key \<Rightarrow> error + int"
  key_type :: "key \<Rightarrow> error + string"
  dbsize :: "error + int"

text \<open>The arguments of \<open>migrate_redis_keys\<close> that the body reads after connecting.\<close>

record config =
  source_host :: string
  source_port :: int
  target_host :: string
  target_port :: int
  batch_size :: int
  size_limit :: int
  large_key_file :: string

text \<open>
  Every \<open>print\<close> of the program, one constructor per statement. Standard output is
  taken to accept every print, in both threads.
\<close>

datatype msg =
    Connected_source string int
  | Connected_target string int
  | Found_keys int
  | Error_migrating string error
  | Migration_completed
  | Processing_large_keys
  | Captured_large_key key int string
  | Error_large_key key error
  | Large_key_complete string
  | Authentication_error
  | Redis_error error
  | Other_error error

text \<open>
  What the main thread does, in program order: it prints, starts the thread that runs
  \<open>process_large_keys\<close> (line 99) and joins it (line 102).
\<close>

datatype event = Print msg | Thread_start | Thread_join

text \<open>The line written to the manifest file at line 27.\<close>

record manifest_line =
  m_key :: key
  m_type :: string
  m_ttl :: int
  m_size :: int

text \<open>
  The file system, as far as the thread uses it: \<open>open(target_db_store, "w")\<close> of line 17
  for a path, and \<open>f.write\<close> of line 27 for a path and a line. Each gives the exception
  it raises, if any. A line is in the file once \<open>f.write\<close> has returned, and closing
  the file does not raise.
\<close>

record file_system =
  fopen :: "string \<Rightarrow> error option"
  fwrite :: "string \<Rightarrow> manifest_line \<Rightarrow> error option"

text \<open>
  The state of the main pass: what has been printed, the list \<open>large_keys\<close>, the commands
  queued on the current pipeline, the progress bar's counter, and the target store.
  \<open>sent\<close> is a history variable: the commands of every \<open>pipe.execute()\<close> that has
  returned.
\<close>

record 't mstate =
  events :: "event list"
  large_keys :: "key_info list"
  pipe :: "restore_cmd list"
  pbar :: nat
  sent :: "restore_cmd list"
  target :: 't

section \<open>Decoding a key\<close>

text \<open>
  \<open>key.decode()\<close> (line 89) is strict UTF-8: it raises on a byte sequence that is not
  well-formed. \<open>utf8_valid\<close> is the well-formedness test of the Unicode standard
  (no overlong forms, no surrogates, nothing above U+10FFFF).
\<close>

definition cont_byte :: "nat \<Rightarrow> bool" where
  "cont_byte b = (128 \<le> b \<and> b \<le> 191)"

fun utf8_valid :: "nat list \<Rightarrow> bool" where
  "utf8_valid [] = True"
| "utf8_valid (b0 # bs) =
     (if b0 < 128 then utf8_valid bs
      else if 194 \<le> b0 \<and> b0 \<le> 223 then
        (case bs of b1 # r \<Rightarrow> cont_byte b1 \<and> utf8_valid r | _ \<Rightarrow> False)
      else if 224 \<le> b0 \<and> b0 \<le> 239 then
        (case bs of b1 # b2 # r \<Rightarrow>
           (if b0 = 224 then 160 \<le> b1 \<and> b1 \<le> 191
            else if b0 = 237 then 128 \<le> b1 \<and> b1 \<le> 159
            else cont_byte b1) \<and> cont_byte b2 \<and> utf8_valid r
         | _ \<Rightarrow> False)
      else if 240 \<le> b0 \<and> b0 \<le> 244 then
        (case bs of b1 # b2 # b3 # r \<Rightarrow>
           (if b0 = 240 then 144 \<le> b1 \<and> b1 \<le> 191
            else if b0 = 244 then 128 \<le> b1 \<and> b1 \<le> 143
            else cont_byte b1) \<and> cont_byte b2 \<and> cont_byte b3 \<and> utf8_valid r
         | _ \<Rightarrow> False)
      else False)"

definition decode :: "key \<Rightarrow> error + string" where
  "decode k = (if utf8_valid (map of_char k) then Inr k else Inl UnicodeDecodeError)"

section \<open>The main pass\<close>

text \<open>Lines 24 and 86: \<open>ttl = 0 if ttl == -1 else ttl * 1000\<close>.\<close>

definition ttl_millis :: "int \<Rightarrow> int" where
  "ttl_millis t = (if t = - 1 then 0 else t * 1000)"

text \<open>Line 78: \<open>source_redis.memory_usage(key) or 0\<close>; \<open>None\<close> and \<open>0\<close> are both falsy.\<close>

definition or_zero :: "int option \<Rightarrow> int" where
  "or_zero m = (case m of None \<Rightarrow> 0 | Some n \<Rightarrow> if n = 0 then 0 else n)"

text \<open>
  The body of the \<open>try\<close> of lines 77-87 for one key: either the key is recorded as
  large (\<open>continue\<close>), or a restore command is queued, or one of the three queries raises.
\<close>

datatype routed = Large key_info | Small restore_cmd

definition migrate_try :: "source \<Rightarrow> int \<Rightarrow> key \<Rightarrow> error + routed" where
  "migrate_try src lim k =
     (case memory_usage src k of
        Inl e \<Rightarrow> Inl e
      | Inr m \<Rightarrow>
          (let key_size = or_zero m in
           if key_size > lim then Inr (Large \<lparr>name = k, size_bytes = key_size\<rparr>)
           else
             (case dump src k of
                Inl e \<Rightarrow> Inl e
              | Inr dumped_value \<Rightarrow>
                  (case ttl src k of
                     Inl e \<Rightarrow> Inl e
                   | Inr t \<Rightarrow>
                       Inr (Small \<lparr>r_name = k, r_ttl = ttl_millis t,
                                   r_value = dumped_value, r_replace = True\<rparr>)))))"

text \<open>
  One iteration of the \<open>for key in keys\<close> loop, with the handler of lines 88-89. The
  handler decodes the key for its message; when that raises, the new exception leaves
  the loop (the first component of the result).
\<close>

definition migrate_key :: "source \<Rightarrow> int \<Rightarrow> key \<Rightarrow> 't mstate \<Rightarrow> error option \<times> 't mstate" where
  "migrate_key src lim k s =
     (case migrate_try src lim k of
        Inr (Large ki) \<Rightarrow> (None, s\<lparr>large_keys := large_keys s @ [ki]\<rparr>)
      | Inr (Small c) \<Rightarrow> (None, s\<lparr>pipe := pipe s @ [c]\<rparr>)
      | Inl e \<Rightarrow>
          (case decode k of
             Inl e' \<Rightarrow> (Some e', s)
           | Inr nm \<Rightarrow> (None, s\<lparr>events := events s @ [Print (Error_migrating nm e)]\<rparr>)))"

fun migrate_keys :: "source \<Rightarrow> int \<Rightarrow> key list \<Rightarrow> 't mstate \<Rightarrow> error option \<times> 't mstate" where
  "migrate_keys src lim [] s = (None, s)"
| "migrate_keys src lim (k # ks) s =
     (case migrate_key src lim k s of
        (Some e, s') \<Rightarrow> (Some e, s')
      | (None, s') \<Rightarrow> migrate_keys src lim ks s')"

text \<open>
  \<open>pipe.execute()\<close> of line 90. The target connection is a parameter \<open>ex\<close>: given the
  target store and the queued commands it returns the store afterwards and the exception
  it raised, if any. A pipeline with nothing queued returns without contacting the target.
\<close>

definition pipe_execute ::
  "('t \<Rightarrow> restore_cmd list \<Rightarrow> error option \<times> 't) \<Rightarrow> 't \<Rightarrow> restore_cmd list \<Rightarrow> error option \<times> 't" where
  "pipe_execute ex t cs = (if cs = [] then (None, t) else ex t cs)"

text \<open>
  The \<open>while True\<close> loop of lines 70-95. The loop need not end (the source may never
  return cursor 0), so it takes fuel: \<open>None\<close> means the fuel ran out. An exception
  leaves the loop with the state reached; leaving the \<open>with\<close> block of the pipeline
  discards what was queued.
\<close>

fun scan_loop ::
  "nat \<Rightarrow> source \<Rightarrow> ('t \<Rightarrow> restore_cmd list \<Rightarrow> error option \<times> 't) \<Rightarrow> config \<Rightarrow> int \<Rightarrow> 't mstate
     \<Rightarrow> (error option \<times> 't mstate) option" where
  "scan_loop 0 src ex cfg cursor s = None"
| "scan_loop (Suc n) src ex cfg cursor s =
     (case scan src cursor (batch_size cfg) of
        Inl e \<Rightarrow> Some (Some e, s)
      | Inr (cursor', keys) \<Rightarrow>
          if keys = [] then Some (None, s)
          else
            (case migrate_keys src (size_limit cfg) keys (s\<lparr>pipe := []\<rparr>) of
               (Some e, s1) \<Rightarrow> Some (Some e, s1\<lparr>pipe := []\<rparr>)
             | (None, s1) \<Rightarrow>
                 (case pipe_execute ex (target s1) (pipe s1) of
                    (Some e, t') \<Rightarrow> Some (Some e, s1\<lparr>pipe := [], target := t'\<rparr>)
                  | (None, t') \<Rightarrow>
                      (let s2 = s1\<lparr>pipe := [], pbar := pbar s1 + length keys,
                                   sent := sent s1 @ pipe s1, target := t'\<rparr>
                       in if cursor' = 0 then Some (None, s2)
                          else scan_loop n src ex cfg cursor' s2))))"

section \<open>The large-key thread\<close>

text \<open>
  The body of the \<open>try\<close> of lines 21-28 for one entry of \<open>large_keys\<close>: the three
  queries, the write of the line and the print that follows it. Any of the first four may
  raise; the print does not (standard output accepts it), so it is made by the loop once
  the body has returned.
\<close>

definition large_key_try ::
  "file_system \<Rightarrow> source \<Rightarrow> string \<Rightarrow> key_info \<Rightarrow> error + manifest_line" where
  "large_key_try fs src path ki =
     (case key_type src (name ki) of
        Inl e \<Rightarrow> Inl e
      | Inr data_type \<Rightarrow>
          (case dump src (name ki) of
             Inl e \<Rightarrow> Inl e
           | Inr dumped_value \<Rightarrow>
               (case ttl src (name ki) of
                  Inl e \<Rightarrow> Inl e
                | Inr t \<Rightarrow>
                    (let l = \<lparr>m_key = name ki, m_type = data_type, m_ttl = ttl_millis t,
                              m_size = size_bytes ki\<rparr>
                     in case fwrite fs path l of
                          Some e \<Rightarrow> Inl e
                        | None \<Rightarrow> Inr l))))"

text \<open>
  The \<open>for key_info in large_keys\<close> loop with the handler of lines 30-31; the state is
  the file written so far and the thread's prints so far.
\<close>

fun large_key_loop ::
  "file_system \<Rightarrow> source \<Rightarrow> string \<Rightarrow> key_info list \<Rightarrow> manifest_line list \<times> msg list
     \<Rightarrow> manifest_line list \<times> msg list" where
  "large_key_loop fs src path [] (f, out) = (f, out)"
| "large_key_loop fs src path (ki # kis) (f, out) =
     (case large_key_try fs src path ki of
        Inr l \<Rightarrow>
          large_key_loop fs src path kis
            (f @ [l], out @ [Captured_large_key (name ki) (size_bytes ki) (m_type l)])
      | Inl e \<Rightarrow> large_key_loop fs src path kis (f, out @ [Error_large_key (name ki) e]))"

text \<open>
  \<open>process_large_keys\<close>. The first print comes before the file is opened. The \<open>open\<close>
  of line 17 is outside every \<open>try\<close>: when it raises, the thread ends there with that
  exception and there is no file. Otherwise the file starts empty (mode \<open>"w"\<close>), the loop
  runs, and the closing line is printed. The result is the file's lines (\<open>None\<close> when
  the file was not opened), what the thread printed, and the exception that ended the
  thread, if any.
\<close>

definition process_large_keys ::
  "file_system \<Rightarrow> key_info list \<Rightarrow> source \<Rightarrow> string
     \<Rightarrow> manifest_line list option \<times> msg list \<times> error option" where
  "process_large_keys fs lks src target_db_store =
     (case fopen fs target_db_store of
        Some e \<Rightarrow> (None, [Processing_large_keys], Some e)
      | None \<Rightarrow>
          (case large_key_loop fs src target_db_store lks ([], [Processing_large_keys]) of
             (f, out) \<Rightarrow> (Some f, out @ [Large_key_complete target_db_store], None)))"

section \<open>The run\<close>

text \<open>The three handlers of lines 104-109.\<close>

fun handler :: "error \<Rightarrow> msg" where
  "handler AuthenticationError = Authentication_error"
| "handler (RedisError d) = Redis_error (RedisError d)"
| "handler e = Other_error e"

text \<open>
  What a run leaves behind: the state of the main thread when the function returns, the
  exception that ended the \<open>try\<close> block (if any), and of the thread its file (\<open>None\<close>
  when the thread was never started or could not open it), its prints, and the exception
  that ended it (if any). An exception in the thread stays in the thread: \<open>join\<close> returns
  all the same.
\<close>

record 't outcome =
  final :: "'t mstate"
  raised :: "error option"
  manifest :: "manifest_line list option"
  thread_out :: "msg list"
  thread_raised :: "error option"

definition init_state :: "config \<Rightarrow> 't \<Rightarrow> 't mstate" where
  "init_state cfg t =
     \<lparr>events = [Print (Connected_source (source_host cfg) (source_port cfg)),
                Print (Connected_target (target_host cfg) (target_port cfg))],
      large_keys = [], pipe = [], pbar = 0, sent = [], target = t\<rparr>"

definition abort :: "error \<Rightarrow> 't mstate \<Rightarrow> 't outcome" where
  "abort e s =
     \<lparr>final = s\<lparr>events := events s @ [Print (handler e)]\<rparr>, raised = Some e,
      manifest = None, thread_out = [], thread_raised = None\<rparr>"

definition migrate_redis_keys ::
  "nat \<Rightarrow> source \<Rightarrow> ('t \<Rightarrow> restore_cmd list \<Rightarrow> error option \<times> 't) \<Rightarrow> file_system
     \<Rightarrow> config \<Rightarrow> 't \<Rightarrow> 't outcome option" where
  "migrate_redis_keys fuel src ex fs cfg t =
     (let s0 = init_state cfg t in
      case dbsize src of
        Inl e \<Rightarrow> Some (abort e s0)
      | Inr total_keys \<Rightarrow>
          (case scan_loop fuel src ex cfg 0
                  (s0\<lparr>events := events s0 @ [Print (Found_keys total_keys)]\<rparr>) of
             None \<Rightarrow> None
           | Some (Some e, s) \<Rightarrow> Some (abort e s)
           | Some (None, s) \<Rightarrow>
               (case process_large_keys fs (large_keys s) src (large_key_file cfg) of
                  (f, out, te) \<Rightarrow>
                    Some \<lparr>final = s\<lparr>events := events s @
                                      [Thread_start, Print Migration_completed, Thread_join]\<rparr>,
                          raised = None, manifest = f, thread_out = out,
                          thread_raised = te\<rparr>)))"

section \<open>A reference target store\<close>

text \<open>
  The target is a parameter of the run. For statements about the contents of the target
  this is the store the program is written against: a map from keys to a serialized
  value and a lifetime in milliseconds, with the checks of the \<open>RESTORE\<close> command in the
  server's order (existing key without \<open>REPLACE\<close>, negative lifetime, payload refused).
  \<open>ok\<close> says which payloads the store accepts.
\<close>

type_synonym kv = "key \<rightharpoonup> bytes \<times> int"

definition kv_restore :: "(bytes \<Rightarrow> bool) \<Rightarrow> restore_cmd \<Rightarrow> kv \<Rightarrow> error option \<times> kv" where
  "kv_restore ok c t =
     (case r_value c of
        None \<Rightarrow> (Some (RedisError ''DataError''), t)
      | Some v \<Rightarrow>
          if \<not> r_replace c \<and> t (r_name c) \<noteq> None then (Some (RedisError ''BUSYKEY''), t)
          else if r_ttl c < 0 then (Some (RedisError ''ERR Invalid TTL''), t)
          else if \<not> ok v then (Some (RedisError ''ERR DUMP payload''), t)
          else (None, t(r_name c \<mapsto> (v, r_ttl c))))"

text \<open>
  The queued commands run in order; a command that fails does not stop the later ones,
  and the first failure is raised at the end.
\<close>

fun kv_apply :: "(bytes \<Rightarrow> bool) \<Rightarrow> restore_cmd list \<Rightarrow> error option \<times> kv \<Rightarrow> error option \<times> kv" where
  "kv_apply ok [] (err, t) = (err, t)"
| "kv_apply ok (c # cs) (err, t) =
     (case kv_restore ok c t of
        (e, t') \<Rightarrow> kv_apply ok cs (if err = None then e else err, t'))"

text \<open>
  A value \<open>None\<close> cannot be encoded: the client raises \<open>redis.DataError\<close>, a
  \<open>RedisError\<close>, before anything is sent.
\<close>

definition kv_execute :: "(bytes \<Rightarrow> bool) \<Rightarrow> kv \<Rightarrow> restore_cmd list \<Rightarrow> error option \<times> kv" where
  "kv_execute ok t cs =
     (if list_ex (\<lambda>c. r_value c = None) cs then (Some (RedisError ''DataError''), t)
      else kv_apply ok cs (None, t))"

text \<open>A target that accepts every batch and keeps nothing.\<close>

definition accept_all :: "unit \<Rightarrow> restore_cmd list \<Rightarrow> error option \<times> unit" where
  "accept_all t cs = (None, t)"

section \<open>Observations on a run\<close>

definition transferred_names :: "'t outcome \<Rightarrow> key list" where
  "transferred_names r = map r_name (sent (final r))"

definition deferred_names :: "'t outcome \<Rightarrow> key list" where
  "deferred_names r = map name (large_keys (final r))"

definition main_events :: "'t outcome \<Rightarrow> event list" where
  "main_events r = events (final r)"

definition scanned :: "'t outcome \<Rightarrow> nat" where
  "scanned r = pbar (final r)"

fun is_failure :: "event \<Rightarrow> bool" where
  "is_failure (Print (Error_migrating nm e)) = True"
| "is_failure ev = False"

definition failed_count :: "'t mstate \<Rightarrow> nat" where
  "failed_count s = length (filter is_failure (events s))"

text \<open>\<open>precedes a b xs\<close>: some occurrence of \<open>a\<close> in \<open>xs\<close> comes before an occurrence of \<open>b\<close>.\<close>

fun precedes :: "'a \<Rightarrow> 'a \<Rightarrow> 'a list \<Rightarrow> bool" where
  "precedes a b [] = False"
| "precedes a b (x # xs) = ((x = a \<and> b \<in> set xs) \<or> precedes a b xs)"

definition reports_after_join :: "'t outcome \<Rightarrow> bool" where
  "reports_after_join r = precedes Thread_join (Print Migration_completed) (events (final r))"

text \<open>
  What one batch does, key by key: the commands it queues, the entries it defers and
  the failures it prints are each a function of the single key.
\<close>

definition queued_of :: "source \<Rightarrow> int \<Rightarrow> key \<Rightarrow> restore_cmd list" where
  "queued_of src lim k = (case migrate_try src lim k of Inr (Small c) \<Rightarrow> [c] | _ \<Rightarrow> [])"

definition deferred_of :: "source \<Rightarrow> int \<Rightarrow> key \<Rightarrow> key_info list" where
  "deferred_of src lim k = (case migrate_try src lim k of Inr (Large ki) \<Rightarrow> [ki] | _ \<Rightarrow> [])"

definition failure_of :: "source \<Rightarrow> int \<Rightarrow> key \<Rightarrow> event list" where
  "failure_of src lim k =
     (case migrate_try src lim k of Inl e \<Rightarrow> [Print (Error_migrating k e)] | _ \<Rightarrow> [])"

text \<open>A key is loggable when its failure message can be built: it has no failure, or its name decodes.\<close>

definition loggable :: "source \<Rightarrow> int \<Rightarrow> key \<Rightarrow> bool" where
  "loggable src lim k =
     (case migrate_try src lim k of Inl e \<Rightarrow> utf8_valid (map of_char k) | Inr x \<Rightarrow> True)"



section \<open>Example stores\<close>

text \<open>
  The scenario of the specification: keys \<open>a\<close> (1 MiB), \<open>b\<close> (20 MiB) and \<open>c\<close> (no
  expiration), all returned by the first \<open>SCAN\<close>; limit 10 MiB.
\<close>

definition demo_source :: source where
  "demo_source =
     \<lparr>scan = (\<lambda>c n. if c = 0 then Inr (0, [''a'', ''b'', ''c'']) else Inr (0, [])),
      memory_usage = (\<lambda>k. if k = ''a'' then Inr (Some 1048576)
                           else if k = ''b'' then Inr (Some 20971520)
                           else if k = ''c'' then Inr (Some 64) else Inr None),
      dump = (\<lambda>k. Inr (Some (''v'' @ k))),
      ttl = (\<lambda>k. if k = ''c'' then Inr (- 1) else Inr 60),
      key_type = (\<lambda>k. Inr ''string''),
      dbsize = Inr 3\<rparr>"

definition demo_config :: config where
  "demo_config =
     \<lparr>source_host = ''src'', source_port = 6379, target_host = ''tgt'', target_port = 6380,
      batch_size = 1000, size_limit = 10485760, large_key_file = ''large_keys.txt''\<rparr>"

text \<open>A file system on which every \<open>open\<close> and every write succeeds.\<close>

definition ok_fs :: file_system where
  "ok_fs = \<lparr>fopen = (\<lambda>p. None), fwrite = (\<lambda>p l. None)\<rparr>"

text \<open>A file system without the directory \<open>no_such_dir\<close>, and a run that writes there.\<close>

definition no_dir_fs :: file_system where
  "no_dir_fs =
     \<lparr>fopen = (\<lambda>p. if take 12 p = ''no_such_dir/'' then Some (OtherError ''FileNotFoundError'')
                     else None),
      fwrite = (\<lambda>p l. None)\<rparr>"

definition no_dir_config :: config where
  "no_dir_config = demo_config\<lparr>large_key_file := ''no_such_dir/large_keys.txt''\<rparr>"


text \<open>The same keys in two batches: \<open>a\<close> first, then \<open>b\<close> and \<open>c\<close>.\<close>

definition two_batch_source :: source where
  "two_batch_source =
     demo_source\<lparr>scan := (\<lambda>c n. if c = 0 then Inr (7, [''a''])
                                 else if c = 7 then Inr (0, [''b'', ''c''])
                                 else Inr (0, []))\<rparr>"

text \<open>A target that refuses the payload of \<open>a\<close>.\<close>

definition refuses_a :: "bytes \<Rightarrow> bool" where
  "refuses_a v = (v \<noteq> ''va'')"

text \<open>The size query of \<open>a\<close> times out.\<close>

definition size_fail_source :: source where
  "size_fail_source =
     demo_source\<lparr>memory_usage := (\<lambda>k. if k = ''a'' then Inl (RedisError ''timeout'')
                                        else memory_usage demo_source k)\<rparr>"


text \<open>
  A source whose first \<open>SCAN\<close> returns no keys and a cursor that is not 0, and whose
  second returns the key \<open>k\<close>.
\<close>

definition sparse_source :: source where
  "sparse_source =
     demo_source\<lparr>scan := (\<lambda>c n. if c = 0 then Inr (5, [])
                                 else if c = 5 then Inr (0, [''k''])
                                 else Inr (0, [])),
                  dbsize := Inr 1\<rparr>"


text \<open>Key \<open>a\<close> has gone by the time its lifetime is asked for: the source reports \<open>-2\<close>.\<close>

definition vanished_source :: source where
  "vanished_source =
     demo_source\<lparr>ttl := (\<lambda>k. if k = ''a'' then Inr (- 2) else ttl demo_source k)\<rparr>"


section \<open>The keys a run enumerates\<close>

text \<open>
  The keys the loop of lines 70-95 obtains from the source, batch after batch, and the
  exception of the \<open>SCAN\<close> that ended the enumeration, if one did. It follows the loop's
  own exits (an empty batch, cursor 0) and assumes nothing else stops the loop.
\<close>

fun enumerated :: "nat \<Rightarrow> source \<Rightarrow> config \<Rightarrow> int \<Rightarrow> (error option \<times> key list) option" where
  "enumerated 0 src cfg cursor = None"
| "enumerated (Suc n) src cfg cursor =
     (case scan src cursor (batch_size cfg) of
        Inl e \<Rightarrow> Some (Some e, [])
      | Inr (cursor', keys) \<Rightarrow>
          if keys = [] then Some (None, [])
          else if cursor' = 0 then Some (None, keys)
          else (case enumerated n src cfg cursor' of
                  None \<Rightarrow> None
                | Some (err, ks) \<Rightarrow> Some (err, keys @ ks)))"

text \<open>What a run has left under a key of the reference target.\<close>

definition written :: "kv outcome option \<Rightarrow> key \<Rightarrow> (bytes \<times> int) option" where
  "written ro k = (case ro of None \<Rightarrow> None | Some r \<Rightarrow> target (final r) k)"

text \<open>
  The invariant of the scan loop behind the accounting of keys: the progress counter is
  the number of commands sent, plus the entries deferred, plus the failures printed.
\<close>

definition accounted :: "'t mstate \<Rightarrow> bool" where
  "accounted s = (pbar s = length (sent s) + length (large_keys s) + failed_count s)"

text \<open>
  For a command with \<open>REPLACE\<close> the reference target's answer does not depend on what it
  holds: \<open>kv_error\<close> is the failure of the command, \<open>kv_update\<close> the binding it writes.
\<close>

definition kv_error :: "(bytes \<Rightarrow> bool) \<Rightarrow> restore_cmd \<Rightarrow> error option" where
  "kv_error ok c =
     (case r_value c of
        None \<Rightarrow> Some (RedisError ''DataError'')
      | Some v \<Rightarrow>
          if r_ttl c < 0 then Some (RedisError ''ERR Invalid TTL'')
          else if \<not> ok v then Some (RedisError ''ERR DUMP payload'')
          else None)"

definition kv_update :: "(bytes \<Rightarrow> bool) \<Rightarrow> restore_cmd \<Rightarrow> kv" where
  "kv_update ok c =
     (case r_value c of
        None \<Rightarrow> Map.empty
      | Some v \<Rightarrow> if kv_error ok c = None then [r_name c \<mapsto> (v, r_ttl c)] else Map.empty)"

text \<open>A target that accepts every payload.\<close>

definition any_payload :: "bytes \<Rightarrow> bool" where
  "any_payload v = True"

text \<open>
  A key that is not UTF-8 (the single byte \<open>0xFF\<close>) whose serialization times out,
  followed by \<open>c\<close> in the same batch.
\<close>

definition binary_key :: key where
  "binary_key = [CHR 0xFF]"

definition binary_source :: source where
  "binary_source =
     demo_source\<lparr>scan := (\<lambda>c n. if c = 0 then Inr (0, [binary_key, ''c'']) else Inr (0, [])),
                  dump := (\<lambda>k. if k = binary_key then Inl (RedisError ''timeout'')
                                 else dump demo_source k)\<rparr>"


text \<open>
  Key \<open>a\<close> has gone by the time it is serialized: \<open>dump\<close> returns \<open>None\<close> and the
  lifetime is \<open>-2\<close>.
\<close>

definition gone_source :: source where
  "gone_source =
     vanished_source\<lparr>dump := (\<lambda>k. if k = ''a'' then Inr None else dump demo_source k)\<rparr>"

section \<open>One key of a batch\<close>

lemma or_zero_Some [simp]: "or_zero (Some n) = n"
  by (simp add: or_zero_def)

lemma or_zero_None [simp]: "or_zero None = 0"
  by (simp add: or_zero_def)

lemma migrate_try_large:
  "memory_usage src k = Inr m \<Longrightarrow> or_zero m > lim \<Longrightarrow>
   migrate_try src lim k = Inr (Large \<lparr>name = k, size_bytes = or_zero m\<rparr>)"
  by (simp add: migrate_try_def)

lemma migrate_try_small:
  "memory_usage src k = Inr m \<Longrightarrow> or_zero m \<le> lim \<Longrightarrow> dump src k = Inr v \<Longrightarrow>
   ttl src k = Inr t \<Longrightarrow>
   migrate_try src lim k =
     Inr (Small \<lparr>r_name = k, r_ttl = ttl_millis t, r_value = v, r_replace = True\<rparr>)"
  by (simp add: migrate_try_def)

lemma migrate_try_size_raises:
  "memory_usage src k = Inl e \<Longrightarrow> migrate_try src lim k = Inl e"
  by (simp add: migrate_try_def)

lemma migrate_key_small:
  "memory_usage src k = Inr m \<Longrightarrow> or_zero m \<le> lim \<Longrightarrow> dump src k = Inr v \<Longrightarrow>
   ttl src k = Inr t \<Longrightarrow>
   migrate_key src lim k s =
     (None, s\<lparr>pipe := pipe s @
        [\<lparr>r_name = k, r_ttl = ttl_millis t, r_value = v, r_replace = True\<rparr>]\<rparr>)"
  by (simp add: migrate_key_def migrate_try_small)

lemma migrate_key_large:
  "memory_usage src k = Inr m \<Longrightarrow> or_zero m > lim \<Longrightarrow>
   migrate_key src lim k s =
     (None, s\<lparr>large_keys := large_keys s @ [\<lparr>name = k, size_bytes = or_zero m\<rparr>]\<rparr>)"
  by (simp add: migrate_key_def migrate_try_large)

text \<open>
  Claim C5. The router compares the size with the limit strictly: a key whose size is above
  the limit is appended to \<open>large_keys\<close> and nothing is queued for it; a key whose size is
  at most the limit (so also exactly the limit) is not deferred, and when its
  serialization and lifetime queries return, its restore command is queued.
\<close>

theorem size_boundary:
  assumes "memory_usage src k = Inr (Some n)"
  shows "(lim < n \<longrightarrow>
            migrate_key src lim k s =
              (None, s\<lparr>large_keys := large_keys s @ [\<lparr>name = k, size_bytes = n\<rparr>]\<rparr>))
         \<and> (n \<le> lim \<longrightarrow> deferred_of src lim k = []
              \<and> (dump src k = Inr v \<and> ttl src k = Inr t \<longrightarrow>
                   migrate_key src lim k s =
                     (None, s\<lparr>pipe := pipe s @
                        [\<lparr>r_name = k, r_ttl = ttl_millis t, r_value = v, r_replace = True\<rparr>]\<rparr>)))"
  using assms
  by (auto simp add: migrate_key_small migrate_key_large [where m = "Some n", simplified]
      deferred_of_def migrate_try_def split: sum.splits)

text \<open>
  Key \<open>a\<close> of the example has 1048576 bytes: with the limit one byte lower it is deferred,
  with the limit at exactly its size it is queued.
\<close>

theorem size_boundary_witness:
  "memory_usage demo_source ''a'' = Inr (Some 1048576)
   \<and> migrate_key demo_source 1048575 ''a'' (init_state demo_config ()) =
       (None, (init_state demo_config ())\<lparr>large_keys := [\<lparr>name = ''a'', size_bytes = 1048576\<rparr>]\<rparr>)
   \<and> deferred_of demo_source 1048576 ''a'' = []
   \<and> dump demo_source ''a'' = Inr (Some ''va'') \<and> ttl demo_source ''a'' = Inr 60
   \<and> migrate_key demo_source 1048576 ''a'' (init_state demo_config ()) =
       (None, (init_state demo_config ())\<lparr>pipe :=
          [\<lparr>r_name = ''a'', r_ttl = 60000, r_value = Some ''va'', r_replace = True\<rparr>]\<rparr>)"
proof -
  have h1: "memory_usage demo_source ''a'' = Inr (Some 1048576)"
    and h2: "dump demo_source ''a'' = Inr (Some ''va'')"
    and h3: "ttl demo_source ''a'' = Inr 60"
    by (simp_all add: demo_source_def)
  show ?thesis
    using h1 h2 h3
      size_boundary [OF h1, where lim = 1048575 and s = "init_state demo_config ()"]
      size_boundary [OF h1, where lim = 1048576 and v = "Some ''va''" and t = 60
        and s = "init_state demo_config ()"]
    by (simp add: init_state_def ttl_millis_def)
qed

text \<open>
  Claim C6. For a key routed to the transfer path whose serialization and lifetime
  queries return, the command queued for the target carries the normalized lifetime:
  0 when the source reports \<open>-1\<close> (no expiration), and \<open>N * 1000\<close> when it reports
  \<open>N \<ge> 0\<close> seconds.
\<close>

theorem lifetime_normalization:
  assumes "memory_usage src k = Inr m" and "or_zero m \<le> lim"
    and "dump src k = Inr v" and "ttl src k = Inr t"
  shows "migrate_key src lim k s =
           (None, s\<lparr>pipe := pipe s @
              [\<lparr>r_name = k, r_ttl = ttl_millis t, r_value = v, r_replace = True\<rparr>]\<rparr>)
         \<and> (t = - 1 \<longrightarrow> ttl_millis t = 0)
         \<and> (0 \<le> t \<longrightarrow> ttl_millis t = t * 1000)"
  using assms by (simp add: migrate_key_small ttl_millis_def)

text \<open>
  Key \<open>c\<close> of the example has no expiration: it is queued with lifetime 0. Key \<open>a\<close>
  has 60 seconds left: it is queued with lifetime 60000.
\<close>

theorem lifetime_normalization_witness:
  "memory_usage demo_source ''c'' = Inr (Some 64) \<and> or_zero (Some 64) \<le> 10485760
   \<and> dump demo_source ''c'' = Inr (Some ''vc'') \<and> ttl demo_source ''c'' = Inr (- 1)
   \<and> migrate_key demo_source 10485760 ''c'' (init_state demo_config ()) =
       (None, (init_state demo_config ())\<lparr>pipe :=
          [\<lparr>r_name = ''c'', r_ttl = 0, r_value = Some ''vc'', r_replace = True\<rparr>]\<rparr>)
   \<and> memory_usage demo_source ''a'' = Inr (Some 1048576)
   \<and> or_zero (Some 1048576) \<le> 10485760
   \<and> dump demo_source ''a'' = Inr (Some ''va'') \<and> ttl demo_source ''a'' = Inr 60
   \<and> (0::int) \<le> 60
   \<and> migrate_key demo_source 10485760 ''a'' (init_state demo_config ()) =
       (None, (init_state demo_config ())\<lparr>pipe :=
          [\<lparr>r_name = ''a'', r_ttl = 60000, r_value = Some ''va'', r_replace = True\<rparr>]\<rparr>)"
proof -
  have h1: "memory_usage demo_source ''c'' = Inr (Some 64)" by (simp add: demo_source_def)
  have h2: "or_zero (Some 64) \<le> 10485760" by simp
  have h3: "dump demo_source ''c'' = Inr (Some ''vc'')" by (simp add: demo_source_def)
  have h4: "ttl demo_source ''c'' = Inr (- 1)" by (simp add: demo_source_def)
  have g1: "memory_usage demo_source ''a'' = Inr (Some 1048576)" by (simp add: demo_source_def)
  have g2: "or_zero (Some 1048576) \<le> 10485760" by simp
  have g3: "dump demo_source ''a'' = Inr (Some ''va'')" by (simp add: demo_source_def)
  have g4: "ttl demo_source ''a'' = Inr 60" by (simp add: demo_source_def)
  show ?thesis
    using h1 h2 h3 h4 g1 g2 g3 g4
      lifetime_normalization [OF h1 h2 h3 h4, of "init_state demo_config ()"]
      lifetime_normalization [OF g1 g2 g3 g4, of "init_state demo_config ()"]
    by (simp add: init_state_def)
qed

text \<open>
  Claim C10. Only \<open>-1\<close> is treated as the sentinel. Any other lifetime that is not
  positive is multiplied by 1000 as it is, both in the transfer path (the queued command)
  and in the large-key thread (the line handed to \<open>f.write\<close>, which is the manifest line
  when the write returns); it is neither an error nor "no expiration". A reported \<open>-2\<close>
  is written as \<open>-2000\<close>.
\<close>

theorem vanished_key_lifetime:
  assumes "ttl src k = Inr t" and "t \<le> 0" and "t \<noteq> - 1"
  shows "(memory_usage src k = Inr m \<and> or_zero m \<le> lim \<and> dump src k = Inr v \<longrightarrow>
            migrate_key src lim k s =
              (None, s\<lparr>pipe := pipe s @
                 [\<lparr>r_name = k, r_ttl = t * 1000, r_value = v, r_replace = True\<rparr>]\<rparr>))
         \<and> (key_type src k = Inr ty \<and> dump src k = Inr v \<longrightarrow>
            large_key_try fs src path \<lparr>name = k, size_bytes = n\<rparr> =
              (case fwrite fs path \<lparr>m_key = k, m_type = ty, m_ttl = t * 1000, m_size = n\<rparr> of
                 Some e \<Rightarrow> Inl e
               | None \<Rightarrow> Inr \<lparr>m_key = k, m_type = ty, m_ttl = t * 1000, m_size = n\<rparr>))"
  using assms by (auto simp add: migrate_key_small ttl_millis_def large_key_try_def Let_def)

theorem vanished_key_lifetime_witness:
  "ttl vanished_source ''a'' = Inr (- 2) \<and> (- 2 :: int) \<le> 0 \<and> (- 2 :: int) \<noteq> - 1
   \<and> memory_usage vanished_source ''a'' = Inr (Some 1048576)
   \<and> or_zero (Some 1048576) \<le> 10485760
   \<and> dump vanished_source ''a'' = Inr (Some ''va'')
   \<and> key_type vanished_source ''a'' = Inr ''string''
   \<and> migrate_key vanished_source 10485760 ''a'' (init_state demo_config ()) =
       (None, (init_state demo_config ())\<lparr>pipe :=
          [\<lparr>r_name = ''a'', r_ttl = - 2000, r_value = Some ''va'', r_replace = True\<rparr>]\<rparr>)
   \<and> large_key_try ok_fs vanished_source ''large_keys.txt'' \<lparr>name = ''a'', size_bytes = 1048576\<rparr> =
       Inr \<lparr>m_key = ''a'', m_type = ''string'', m_ttl = - 2000, m_size = 1048576\<rparr>"
proof -
  have h1: "ttl vanished_source ''a'' = Inr (- 2)"
    by (simp add: vanished_source_def demo_source_def)
  have h2: "(- 2 :: int) \<le> 0" and h3: "(- 2 :: int) \<noteq> - 1" by simp_all
  have h4: "memory_usage vanished_source ''a'' = Inr (Some 1048576)"
    and h5: "dump vanished_source ''a'' = Inr (Some ''va'')"
    and h6: "key_type vanished_source ''a'' = Inr ''string''"
    by (simp_all add: vanished_source_def demo_source_def)
  have h7: "or_zero (Some 1048576) \<le> 10485760" by simp
  show ?thesis
    using h1 h2 h3 h4 h5 h6 h7
      vanished_key_lifetime [OF h1 h2 h3, where m = "Some 1048576" and lim = 10485760
        and v = "Some ''va''" and s = "init_state demo_config ()" and ty = "''string''"
        and n = 1048576 and fs = ok_fs and path = "''large_keys.txt''"]
    by (simp add: init_state_def ok_fs_def)
qed

lemma migrate_key_raises:
  "migrate_try src lim k = Inl e \<Longrightarrow> utf8_valid (map of_char k) \<Longrightarrow>
   migrate_key src lim k s = (None, s\<lparr>events := events s @ [Print (Error_migrating k e)]\<rparr>)"
  by (simp add: migrate_key_def decode_def)

lemma migrate_key_undecodable:
  "migrate_try src lim k = Inl e \<Longrightarrow> \<not> utf8_valid (map of_char k) \<Longrightarrow>
   migrate_key src lim k s = (Some UnicodeDecodeError, s)"
  by (simp add: migrate_key_def decode_def)

text \<open>
  Claim C4, as stated, fails: the size query is inside the \<open>try\<close> of lines 77-89, so
  when it raises the handler prints the failure and the loop moves on; nothing is queued
  for the key. In the example the size query of \<open>a\<close> times out: only \<open>c\<close> is sent to the
  target, \<open>b\<close> is deferred, and the run ends normally.
\<close>

theorem size_query_failure_skips_key:
  "memory_usage size_fail_source ''a'' = Inl (RedisError ''timeout'')
   \<and> map_option transferred_names
         (migrate_redis_keys 5 size_fail_source accept_all ok_fs demo_config ()) = Some [''c'']
   \<and> map_option deferred_names
         (migrate_redis_keys 5 size_fail_source accept_all ok_fs demo_config ()) = Some [''b'']
   \<and> map_option raised
         (migrate_redis_keys 5 size_fail_source accept_all ok_fs demo_config ()) = Some None"
  by code_simp

text \<open>
  Claim C4, amended. A size query that returns no value counts as size 0, and the key is
  routed to the transfer path (for a limit that is not negative). A size query that raises
  is caught for that key alone: nothing is queued or deferred for the key, the failure is
  printed with the key, and the loop goes on with the remaining keys, provided the key's
  name decodes.
\<close>

theorem size_query:
  "(memory_usage src k = Inr None \<and> 0 \<le> lim \<and> dump src k = Inr v \<and> ttl src k = Inr t \<longrightarrow>
      migrate_key src lim k s =
        (None, s\<lparr>pipe := pipe s @
           [\<lparr>r_name = k, r_ttl = ttl_millis t, r_value = v, r_replace = True\<rparr>]\<rparr>))
   \<and> (memory_usage src k = Inl e \<and> utf8_valid (map of_char k) \<longrightarrow>
      queued_of src lim k = [] \<and> deferred_of src lim k = [] \<and>
      migrate_keys src lim (k # ks) s =
        migrate_keys src lim ks (s\<lparr>events := events s @ [Print (Error_migrating k e)]\<rparr>))"
proof (intro conjI impI)
  assume "memory_usage src k = Inr None \<and> 0 \<le> lim \<and> dump src k = Inr v \<and> ttl src k = Inr t"
  then show "migrate_key src lim k s =
        (None, s\<lparr>pipe := pipe s @
           [\<lparr>r_name = k, r_ttl = ttl_millis t, r_value = v, r_replace = True\<rparr>]\<rparr>)"
    by (simp add: migrate_key_small [where m = None])
next
  assume a: "memory_usage src k = Inl e \<and> utf8_valid (map of_char k)"
  then have r: "migrate_try src lim k = Inl e"
    by (simp add: migrate_try_size_raises)
  show "queued_of src lim k = []" and "deferred_of src lim k = []"
    using r by (simp_all add: queued_of_def deferred_of_def)
  show "migrate_keys src lim (k # ks) s =
        migrate_keys src lim ks (s\<lparr>events := events s @ [Print (Error_migrating k e)]\<rparr>)"
    using a r by (simp add: migrate_key_raises)
qed

theorem size_query_witness:
  "memory_usage demo_source ''zz'' = Inr None \<and> (0::int) \<le> 10485760
   \<and> dump demo_source ''zz'' = Inr (Some ''vzz'') \<and> ttl demo_source ''zz'' = Inr 60
   \<and> migrate_key demo_source 10485760 ''zz'' (init_state demo_config ()) =
       (None, (init_state demo_config ())\<lparr>pipe :=
          [\<lparr>r_name = ''zz'', r_ttl = 60000, r_value = Some ''vzz'', r_replace = True\<rparr>]\<rparr>)
   \<and> memory_usage size_fail_source ''a'' = Inl (RedisError ''timeout'')
   \<and> utf8_valid (map of_char ''a'')
   \<and> migrate_keys size_fail_source 10485760 [''a'', ''c''] (init_state demo_config ()) =
       (None, (init_state demo_config ())
          \<lparr>events := events (init_state demo_config ()) @
              [Print (Error_migrating ''a'' (RedisError ''timeout''))],
            pipe := [\<lparr>r_name = ''c'', r_ttl = 0, r_value = Some ''vc'', r_replace = True\<rparr>]\<rparr>)"
proof -
  have h1: "memory_usage demo_source ''zz'' = Inr None \<and> (0::int) \<le> 10485760
      \<and> dump demo_source ''zz'' = Inr (Some ''vzz'') \<and> ttl demo_source ''zz'' = Inr 60"
    by (simp add: demo_source_def)
  have h2: "memory_usage size_fail_source ''a'' = Inl (RedisError ''timeout'')
      \<and> utf8_valid (map of_char ''a'')"
    by (simp add: size_fail_source_def)
  have h3: "migrate_keys size_fail_source 10485760 [''c'']
       ((init_state demo_config ())\<lparr>events := events (init_state demo_config ()) @
              [Print (Error_migrating ''a'' (RedisError ''timeout''))]\<rparr>) =
       (None, (init_state demo_config ())
          \<lparr>events := events (init_state demo_config ()) @
              [Print (Error_migrating ''a'' (RedisError ''timeout''))],
            pipe := [\<lparr>r_name = ''c'', r_ttl = 0, r_value = Some ''vc'', r_replace = True\<rparr>]\<rparr>)"
    by (simp add: size_fail_source_def demo_source_def migrate_key_def migrate_try_def
        ttl_millis_def init_state_def)
  show ?thesis
    using h1 h2 h3
      size_query [where src = demo_source and k = "''zz''" and lim = 10485760
        and v = "Some ''vzz''" and t = 60 and s = "init_state demo_config ()"]
      size_query [where src = size_fail_source and k = "''a''" and lim = 10485760
        and e = "RedisError ''timeout''" and ks = "[''c'']" and s = "init_state demo_config ()"]
    by (simp add: ttl_millis_def init_state_def del: migrate_keys.simps)
qed

section \<open>The large-key thread, entry by entry\<close>













section \<open>Batches and the scan loop\<close>

lemma migrate_key_loggable:
  "loggable src lim k \<Longrightarrow>
   migrate_key src lim k s =
     (None, s\<lparr>events := events s @ failure_of src lim k,
              large_keys := large_keys s @ deferred_of src lim k,
              pipe := pipe s @ queued_of src lim k\<rparr>)"
  by (auto simp add: migrate_key_def loggable_def failure_of_def deferred_of_def queued_of_def
      decode_def split: sum.splits routed.splits)

lemma migrate_keys_loggable:
  "list_all (loggable src lim) ks \<Longrightarrow>
   migrate_keys src lim ks s =
     (None, s\<lparr>events := events s @ concat (map (failure_of src lim) ks),
              large_keys := large_keys s @ concat (map (deferred_of src lim) ks),
              pipe := pipe s @ concat (map (queued_of src lim) ks)\<rparr>)"
proof (induction ks arbitrary: s)
  case Nil
  then show ?case by simp
next
  case (Cons k ks)
  then show ?case by (simp add: migrate_key_loggable)
qed

lemma migrate_key_returned:
  "migrate_key src lim k s = (None, s') \<Longrightarrow> loggable src lim k"
  by (auto simp add: migrate_key_def loggable_def decode_def
      split: sum.splits routed.splits if_splits)

lemma migrate_keys_returned:
  "migrate_keys src lim ks s = (None, s') \<Longrightarrow> list_all (loggable src lim) ks"
proof (induction ks arbitrary: s)
  case Nil
  then show ?case by simp
next
  case (Cons k ks)
  obtain e1 s1 where k: "migrate_key src lim k s = (e1, s1)"
    by (cases "migrate_key src lim k s")
  with Cons.prems have e1: "e1 = None" and rest: "migrate_keys src lim ks s1 = (None, s')"
    by (auto split: option.splits)
  from migrate_key_returned [OF k [unfolded e1]] Cons.IH [OF rest]
  show ?case by simp
qed

text \<open>
  A failing query is caught for its key: the failure of the size query, of the
  serialization or of the lifetime query of a key whose name decodes is printed with the
  key, and the loop takes the next key of the batch from a state that differs by that
  print only.
\<close>

lemma query_failure_caught:
  assumes "memory_usage src k = Inl e
     \<or> (memory_usage src k = Inr m \<and> or_zero m \<le> lim \<and> dump src k = Inl e)
     \<or> (memory_usage src k = Inr m \<and> or_zero m \<le> lim \<and> dump src k = Inr v
         \<and> ttl src k = Inl e)"
    and "utf8_valid (map of_char k)"
  shows "migrate_keys src lim (k # ks) s =
           migrate_keys src lim ks (s\<lparr>events := events s @ [Print (Error_migrating k e)]\<rparr>)"
proof -
  from assms(1) have "migrate_try src lim k = Inl e"
    by (auto simp add: migrate_try_def)
  with assms(2) show ?thesis
    by (simp add: migrate_key_def decode_def)
qed

text \<open>
  A loop that ends without an exception, on any target: the keys it has handled are the
  keys the source enumerates, and what it has sent, deferred and printed is the
  concatenation of what each key alone gives.
\<close>

lemma scan_loop_completed:
  "scan_loop n src ex cfg c s = Some (None, s') \<Longrightarrow>
   \<exists>ks. enumerated n src cfg c = Some (None, ks)
      \<and> list_all (loggable src (size_limit cfg)) ks
      \<and> events s' = events s @ concat (map (failure_of src (size_limit cfg)) ks)
      \<and> large_keys s' = large_keys s @ concat (map (deferred_of src (size_limit cfg)) ks)
      \<and> sent s' = sent s @ concat (map (queued_of src (size_limit cfg)) ks)
      \<and> pbar s' = pbar s + length ks"
proof (induction n arbitrary: c s)
  case 0
  then show ?case by simp
next
  case (Suc n)
  show ?case
  proof (cases "scan src c (batch_size cfg)")
    case (Inl e)
    with Suc.prems show ?thesis by simp
  next
    case (Inr p)
    obtain c' keys where p: "p = (c', keys)" by (cases p)
    show ?thesis
    proof (cases "keys = []")
      case True
      with Inr p Suc.prems show ?thesis by simp
    next
      case False
      let ?lim = "size_limit cfg"
      obtain e1 s1 where b: "migrate_keys src ?lim keys (s\<lparr>pipe := []\<rparr>) = (e1, s1)"
        by (cases "migrate_keys src ?lim keys (s\<lparr>pipe := []\<rparr>)")
      obtain e2 t' where x: "pipe_execute ex (target s1) (pipe s1) = (e2, t')"
        by (cases "pipe_execute ex (target s1) (pipe s1)")
      from Suc.prems(1) Inr p False b x have e1: "e1 = None" and e2: "e2 = None"
        by (auto split: option.splits)
      from migrate_keys_returned [OF b [unfolded e1]]
      have keys_ok: "list_all (loggable src ?lim) keys" .
      from migrate_keys_loggable [OF keys_ok, of "s\<lparr>pipe := []\<rparr>"] b
      have s1: "s1 = s\<lparr>events := events s @ concat (map (failure_of src ?lim) keys),
                   large_keys := large_keys s @ concat (map (deferred_of src ?lim) keys),
                   pipe := concat (map (queued_of src ?lim) keys)\<rparr>"
        by simp
      let ?s2 = "s1\<lparr>pipe := [], pbar := pbar s1 + length keys,
                    sent := sent s1 @ pipe s1, target := t'\<rparr>"
      show ?thesis
      proof (cases "c' = 0")
        case True
        with Suc.prems(1) Inr p False b x e1 e2 have "s' = ?s2" by simp
        with s1 keys_ok Inr p False True show ?thesis by simp
      next
        case nz: False
        with Suc.prems(1) Inr p False b x e1 e2
        have "scan_loop n src ex cfg c' ?s2 = Some (None, s')" by simp
        from Suc.IH [OF this] obtain ks where
          "enumerated n src cfg c' = Some (None, ks)"
          "list_all (loggable src ?lim) ks"
          "events s' = events ?s2 @ concat (map (failure_of src ?lim) ks)"
          "large_keys s' = large_keys ?s2 @ concat (map (deferred_of src ?lim) ks)"
          "sent s' = sent ?s2 @ concat (map (queued_of src ?lim) ks)"
          "pbar s' = pbar ?s2 + length ks"
          by blast
        with s1 keys_ok Inr p False nz show ?thesis by simp
      qed
    qed
  qed
qed

text \<open>
  Claim C1. A key's failure is to be caught for that key and the run is to go on, also
  when the failure is the target's rejection of the write. The \<open>try\<close> of lines 77-89
  encloses \<open>pipe.restore\<close>, but on a pipeline that call only queues the command: the
  target answers at \<open>pipe.execute()\<close> (line 90), which is outside the \<open>try\<close>. In the
  example the target refuses the payload of \<open>a\<close>, the only key of the first batch. The
  exception ends the run through the handler of line 106: the second batch (\<open>b\<close>, \<open>c\<close>)
  is never fetched although the source would enumerate it, nothing is deferred, the
  thread is never started, and \<open>c\<close> never reaches the target.
\<close>

theorem write_rejection_aborts_run:
  "map_option raised
       (migrate_redis_keys 5 two_batch_source (kv_execute refuses_a) ok_fs demo_config Map.empty)
     = Some (Some (RedisError ''ERR DUMP payload''))
   \<and> map_option main_events
       (migrate_redis_keys 5 two_batch_source (kv_execute refuses_a) ok_fs demo_config Map.empty)
     = Some [Print (Connected_source ''src'' 6379), Print (Connected_target ''tgt'' 6380),
             Print (Found_keys 3), Print (Redis_error (RedisError ''ERR DUMP payload''))]
   \<and> map_option deferred_names
       (migrate_redis_keys 5 two_batch_source (kv_execute refuses_a) ok_fs demo_config Map.empty)
     = Some []
   \<and> map_option manifest
       (migrate_redis_keys 5 two_batch_source (kv_execute refuses_a) ok_fs demo_config Map.empty)
     = Some None
   \<and> written
       (migrate_redis_keys 5 two_batch_source (kv_execute refuses_a) ok_fs demo_config Map.empty)
       ''c''
     = None
   \<and> enumerated 5 two_batch_source demo_config 0 = Some (None, [''a'', ''b'', ''c''])"
  by code_simp

section \<open>Accounting for the keys of a run\<close>

lemma migrate_key_count:
  "migrate_key src lim k s = (None, s') \<Longrightarrow>
   length (pipe s') + length (large_keys s') + failed_count s'
     = Suc (length (pipe s) + length (large_keys s) + failed_count s)
   \<and> sent s' = sent s \<and> pbar s' = pbar s"
  by (auto simp add: migrate_key_def failed_count_def split: sum.splits routed.splits)

lemma migrate_keys_count:
  "migrate_keys src lim ks s = (None, s') \<Longrightarrow>
   length (pipe s') + length (large_keys s') + failed_count s'
     = length (pipe s) + length (large_keys s) + failed_count s + length ks
   \<and> sent s' = sent s \<and> pbar s' = pbar s"
proof (induction ks arbitrary: s)
  case Nil
  then show ?case by simp
next
  case (Cons k ks)
  obtain err s1 where k: "migrate_key src lim k s = (err, s1)"
    by (cases "migrate_key src lim k s")
  with Cons.prems have err: "err = None" and rest: "migrate_keys src lim ks s1 = (None, s')"
    by (auto split: option.splits)
  from migrate_key_count [OF k [unfolded err]] Cons.IH [OF rest]
  show ?case by simp
qed

lemma scan_loop_accounted:
  "scan_loop n src ex cfg c s = Some (None, s') \<Longrightarrow> accounted s \<Longrightarrow> accounted s'"
proof (induction n arbitrary: c s)
  case 0
  then show ?case by simp
next
  case (Suc n)
  show ?case
  proof (cases "scan src c (batch_size cfg)")
    case (Inl e)
    with Suc.prems show ?thesis by simp
  next
    case (Inr p)
    obtain c' keys where p: "p = (c', keys)" by (cases p)
    show ?thesis
    proof (cases "keys = []")
      case True
      with Inr p Suc.prems show ?thesis by simp
    next
      case False
      obtain e1 s1 where b: "migrate_keys src (size_limit cfg) keys (s\<lparr>pipe := []\<rparr>) = (e1, s1)"
        by (cases "migrate_keys src (size_limit cfg) keys (s\<lparr>pipe := []\<rparr>)")
      obtain e2 t' where x: "pipe_execute ex (target s1) (pipe s1) = (e2, t')"
        by (cases "pipe_execute ex (target s1) (pipe s1)")
      let ?s2 = "s1\<lparr>pipe := [], pbar := pbar s1 + length keys,
                    sent := sent s1 @ pipe s1, target := t'\<rparr>"
      from Suc.prems(1) Inr p False b x have e1: "e1 = None" and e2: "e2 = None"
        by (auto split: option.splits)
      from migrate_keys_count [OF b [unfolded e1]] Suc.prems(2)
      have acc: "accounted ?s2"
        by (simp add: accounted_def failed_count_def)
      show ?thesis
      proof (cases "c' = 0")
        case True
        with Suc.prems(1) Inr p False b x e1 e2 have "s' = ?s2" by simp
        with acc show ?thesis by simp
      next
        case nz: False
        with Suc.prems(1) Inr p False b x e1 e2
        have "scan_loop n src ex cfg c' ?s2 = Some (None, s')" by simp
        from Suc.IH [OF this acc] show ?thesis .
      qed
    qed
  qed
qed


lemma scan_loop_pbar:
  "scan_loop n src ex cfg c s = Some (None, s') \<Longrightarrow>
   \<exists>ks. enumerated n src cfg c = Some (None, ks) \<and> pbar s' = pbar s + length ks"
proof (induction n arbitrary: c s)
  case 0
  then show ?case by simp
next
  case (Suc n)
  show ?case
  proof (cases "scan src c (batch_size cfg)")
    case (Inl e)
    with Suc.prems show ?thesis by simp
  next
    case (Inr p)
    obtain c' keys where p: "p = (c', keys)" by (cases p)
    show ?thesis
    proof (cases "keys = []")
      case True
      with Inr p Suc.prems show ?thesis by simp
    next
      case False
      obtain e1 s1 where b: "migrate_keys src (size_limit cfg) keys (s\<lparr>pipe := []\<rparr>) = (e1, s1)"
        by (cases "migrate_keys src (size_limit cfg) keys (s\<lparr>pipe := []\<rparr>)")
      obtain e2 t' where x: "pipe_execute ex (target s1) (pipe s1) = (e2, t')"
        by (cases "pipe_execute ex (target s1) (pipe s1)")
      let ?s2 = "s1\<lparr>pipe := [], pbar := pbar s1 + length keys,
                    sent := sent s1 @ pipe s1, target := t'\<rparr>"
      from Suc.prems(1) Inr p False b x have e1: "e1 = None" and e2: "e2 = None"
        by (auto split: option.splits)
      from migrate_keys_count [OF b [unfolded e1]] have pb: "pbar s1 = pbar s"
        by simp
      show ?thesis
      proof (cases "c' = 0")
        case True
        with Suc.prems(1) Inr p False b x e1 e2 have "s' = ?s2" by simp
        with pb Inr p False True show ?thesis by simp
      next
        case nz: False
        with Suc.prems(1) Inr p False b x e1 e2
        have "scan_loop n src ex cfg c' ?s2 = Some (None, s')" by simp
        from Suc.IH [OF this] obtain ks where
          "enumerated n src cfg c' = Some (None, ks)" and "pbar s' = pbar ?s2 + length ks"
          by blast
        with pb Inr p False nz show ?thesis by simp
      qed
    qed
  qed
qed

lemma migrate_redis_keys_completed:
  assumes "migrate_redis_keys fuel src ex fs cfg t = Some r" and "raised r = None"
  shows "\<exists>total s. dbsize src = Inr total
     \<and> scan_loop fuel src ex cfg 0
          ((init_state cfg t)\<lparr>events := events (init_state cfg t) @ [Print (Found_keys total)]\<rparr>)
         = Some (None, s)
     \<and> final r = s\<lparr>events := events s @ [Thread_start, Print Migration_completed, Thread_join]\<rparr>
     \<and> (manifest r, thread_out r, thread_raised r)
         = process_large_keys fs (large_keys s) src (large_key_file cfg)"
  using assms
  by (auto simp add: migrate_redis_keys_def abort_def Let_def
      split: sum.splits option.splits prod.splits)

text \<open>
  Claim C3, as stated, fails: the program reports no counts. In the scenario of the
  specification the main thread prints the two connection lines, the approximate number
  of keys and the completion message, and the thread prints its three lines; two keys
  were transferred and one deferred, and no line says so.
\<close>

theorem no_count_report:
  "map_option main_events (migrate_redis_keys 5 demo_source accept_all ok_fs demo_config ())
     = Some [Print (Connected_source ''src'' 6379), Print (Connected_target ''tgt'' 6380),
             Print (Found_keys 3), Thread_start, Print Migration_completed, Thread_join]
   \<and> map_option thread_out (migrate_redis_keys 5 demo_source accept_all ok_fs demo_config ())
     = Some [Processing_large_keys, Captured_large_key ''b'' 20971520 ''string'',
             Large_key_complete ''large_keys.txt'']
   \<and> map_option transferred_names (migrate_redis_keys 5 demo_source accept_all ok_fs demo_config ())
     = Some [''a'', ''c'']
   \<and> map_option deferred_names (migrate_redis_keys 5 demo_source accept_all ok_fs demo_config ())
     = Some [''b'']"
  by code_simp

text \<open>
  Claim C3, amended. A run that reaches its end prints the completion message, and every
  key it enumerated is accounted for once: the keys scanned are as many as the restore
  commands sent to the target, the entries deferred and the failures printed, taken
  together. (In the scenario: 3 = 2 + 1 + 0.)
\<close>

theorem every_key_accounted:
  assumes "migrate_redis_keys fuel src ex fs cfg t = Some r" and "raised r = None"
  shows "\<exists>ks. enumerated fuel src cfg 0 = Some (None, ks)
           \<and> scanned r = length ks
           \<and> length ks = length (sent (final r)) + length (large_keys (final r))
                + failed_count (final r)
           \<and> Print Migration_completed \<in> set (main_events r)"
proof -
  from migrate_redis_keys_completed [OF assms] obtain total s where
    loop: "scan_loop fuel src ex cfg 0
          ((init_state cfg t)\<lparr>events := events (init_state cfg t) @ [Print (Found_keys total)]\<rparr>)
         = Some (None, s)"
    and fin: "final r = s\<lparr>events := events s @ [Thread_start, Print Migration_completed, Thread_join]\<rparr>"
    by blast
  let ?s0 = "(init_state cfg t)\<lparr>events := events (init_state cfg t) @ [Print (Found_keys total)]\<rparr>"
  have "accounted ?s0"
    by (simp add: accounted_def init_state_def failed_count_def)
  from scan_loop_accounted [OF loop this] have acc: "accounted s" .
  from scan_loop_pbar [OF loop] obtain ks where
    ks: "enumerated fuel src cfg 0 = Some (None, ks)" and pb: "pbar s = pbar ?s0 + length ks"
    by blast
  have "pbar ?s0 = 0" by (simp add: init_state_def)
  with pb acc fin ks show ?thesis
    by (simp add: accounted_def scanned_def failed_count_def main_events_def)
qed

theorem every_key_accounted_witness:
  "\<exists>r. migrate_redis_keys 5 demo_source accept_all ok_fs demo_config () = Some r \<and> raised r = None
       \<and> enumerated 5 demo_source demo_config 0 = Some (None, [''a'', ''b'', ''c''])
       \<and> scanned r = 3 \<and> length (sent (final r)) = 2 \<and> length (large_keys (final r)) = 1
       \<and> failed_count (final r) = 0 \<and> Print Migration_completed \<in> set (main_events r)"
proof -
  have e: "map_option raised (migrate_redis_keys 5 demo_source accept_all ok_fs demo_config ())
      = Some None"
    by code_simp
  then obtain r where r: "migrate_redis_keys 5 demo_source accept_all ok_fs demo_config () = Some r"
    and n: "raised r = None"
    by auto
  have k: "enumerated 5 demo_source demo_config 0 = Some (None, [''a'', ''b'', ''c''])"
    by code_simp
  have "map_option transferred_names (migrate_redis_keys 5 demo_source accept_all ok_fs demo_config ())
      = Some [''a'', ''c'']"
    and "map_option deferred_names (migrate_redis_keys 5 demo_source accept_all ok_fs demo_config ())
      = Some [''b'']"
    by code_simp+
  with r have "map r_name (sent (final r)) = [''a'', ''c'']"
    and "map name (large_keys (final r)) = [''b'']"
    by (simp_all add: transferred_names_def deferred_names_def)
  then have l: "length (sent (final r)) = 2" "length (large_keys (final r)) = 1"
    by (metis length_map length_Cons list.size(3) One_nat_def Suc_1)+
  from every_key_accounted [OF r n] k l r n show ?thesis
    by auto
qed

section \<open>The order of the two passes\<close>

lemma migrate_key_prints:
  "migrate_key src lim k s = (err, s') \<Longrightarrow> \<exists>ms. events s' = events s @ map Print ms"
  by (auto simp add: migrate_key_def split: sum.splits routed.splits
      intro: exI [of _ "[]"] exI [of _ "[m]" for m])

lemma migrate_keys_prints:
  "migrate_keys src lim ks s = (err, s') \<Longrightarrow> \<exists>ms. events s' = events s @ map Print ms"
proof (induction ks arbitrary: s)
  case Nil
  then show ?case by (auto intro: exI [of _ "[]"])
next
  case (Cons k ks)
  obtain e1 s1 where k: "migrate_key src lim k s = (e1, s1)"
    by (cases "migrate_key src lim k s")
  from migrate_key_prints [OF k] obtain ms1 where m1: "events s1 = events s @ map Print ms1"
    by blast
  show ?case
  proof (cases e1)
    case None
    with Cons.prems k have "migrate_keys src lim ks s1 = (err, s')" by simp
    from Cons.IH [OF this] obtain ms2 where "events s' = events s1 @ map Print ms2" by blast
    with m1 have "events s' = events s @ map Print (ms1 @ ms2)" by simp
    then show ?thesis by blast
  next
    case (Some e)
    with Cons.prems k have "s' = s1" by simp
    with m1 show ?thesis by blast
  qed
qed

lemma scan_loop_prints:
  "scan_loop n src ex cfg c s = Some (err, s') \<Longrightarrow> \<exists>ms. events s' = events s @ map Print ms"
proof (induction n arbitrary: c s)
  case 0
  then show ?case by simp
next
  case (Suc n)
  have triv: "\<exists>ms. events s = events s @ map Print ms"
    by (auto intro: exI [of _ "[]"])
  show ?case
  proof (cases "scan src c (batch_size cfg)")
    case (Inl e)
    with Suc.prems triv show ?thesis by auto
  next
    case (Inr p)
    obtain c' keys where p: "p = (c', keys)" by (cases p)
    show ?thesis
    proof (cases "keys = []")
      case True
      with Inr p Suc.prems triv show ?thesis by auto
    next
      case False
      obtain e1 s1 where b: "migrate_keys src (size_limit cfg) keys (s\<lparr>pipe := []\<rparr>) = (e1, s1)"
        by (cases "migrate_keys src (size_limit cfg) keys (s\<lparr>pipe := []\<rparr>)")
      from migrate_keys_prints [OF b] obtain ms1 where m1: "events s1 = events s @ map Print ms1"
        by auto
      obtain e2 t' where x: "pipe_execute ex (target s1) (pipe s1) = (e2, t')"
        by (cases "pipe_execute ex (target s1) (pipe s1)")
      let ?s2 = "s1\<lparr>pipe := [], pbar := pbar s1 + length keys,
                    sent := sent s1 @ pipe s1, target := t'\<rparr>"
      show ?thesis
      proof (cases "e1 = None \<and> e2 = None \<and> c' \<noteq> 0")
        case True
        with Suc.prems Inr p False b x
        have "scan_loop n src ex cfg c' ?s2 = Some (err, s')" by simp
        from Suc.IH [OF this] obtain ms2 where "events s' = events ?s2 @ map Print ms2" by blast
        with m1 have "events s' = events s @ map Print (ms1 @ ms2)" by simp
        then show ?thesis by blast
      next
        case stop: False
        with Suc.prems Inr p False b x have "events s' = events s1"
          by (auto split: option.splits if_splits)
        with m1 have "events s' = events s @ map Print ms1" by simp
        then show ?thesis by blast
      qed
    qed
  qed
qed


lemma migrate_redis_keys_aborted:
  assumes "migrate_redis_keys fuel src ex fs cfg t = Some r" and "raised r = Some e"
  shows "manifest r = None \<and> thread_out r = [] \<and> thread_raised r = None
     \<and> (\<exists>s. final r = s\<lparr>events := events s @ [Print (handler e)]\<rparr>
          \<and> ((dbsize src = Inl e \<and> s = init_state cfg t)
              \<or> (\<exists>total. dbsize src = Inr total
                    \<and> scan_loop fuel src ex cfg 0
                        ((init_state cfg t)\<lparr>events := events (init_state cfg t)
                            @ [Print (Found_keys total)]\<rparr>) = Some (Some e, s))))"
  using assms
  by (auto simp add: migrate_redis_keys_def abort_def Let_def
      split: sum.splits option.splits prod.splits)

text \<open>
  Claim C7, as stated, fails in its second half: the main thread prints
  \<open>Key migration completed successfully!\<close> (line 101) after it has started the thread
  and before it joins it (line 102), so the outcome is reported without waiting for the
  thread. In the run of the example no join precedes the report.
\<close>

theorem report_precedes_join:
  "map_option reports_after_join (migrate_redis_keys 5 demo_source accept_all ok_fs demo_config ())
     = Some False
   \<and> map_option main_events (migrate_redis_keys 5 demo_source accept_all ok_fs demo_config ())
     = Some [Print (Connected_source ''src'' 6379), Print (Connected_target ''tgt'' 6380),
             Print (Found_keys 3), Thread_start, Print Migration_completed, Thread_join]"
  by code_simp


text \<open>
  Claim C7, amended. The thread is started only after the main pass has ended: everything
  the main thread did before is a print, the thread is given the final \<open>large_keys\<close> and
  the manifest is what \<open>process_large_keys\<close> makes of it. The completion message is
  printed right after the start of the thread, and the join is the last thing the main
  thread does, so the function returns only when the thread has finished. A run that
  ends in an exception never starts the thread.
\<close>

theorem thread_after_main_pass:
  assumes "migrate_redis_keys fuel src ex fs cfg t = Some r"
  shows "(raised r = None \<longrightarrow>
           (\<exists>ms. main_events r =
                    map Print ms @ [Thread_start, Print Migration_completed, Thread_join])
           \<and> (manifest r, thread_out r, thread_raised r) =
               process_large_keys fs (large_keys (final r)) src (large_key_file cfg))
       \<and> (raised r \<noteq> None \<longrightarrow>
           (\<exists>ms. main_events r = map Print ms) \<and> manifest r = None \<and> thread_out r = []
           \<and> thread_raised r = None)"
proof (intro conjI impI)
  assume n: "raised r = None"
  from migrate_redis_keys_completed [OF assms n] obtain total s where
    loop: "scan_loop fuel src ex cfg 0
          ((init_state cfg t)\<lparr>events := events (init_state cfg t) @ [Print (Found_keys total)]\<rparr>)
         = Some (None, s)"
    and fin: "final r = s\<lparr>events := events s @ [Thread_start, Print Migration_completed, Thread_join]\<rparr>"
    and m: "(manifest r, thread_out r, thread_raised r)
         = process_large_keys fs (large_keys s) src (large_key_file cfg)"
    by blast
  from scan_loop_prints [OF loop] obtain ms where
    "events s = map Print ([Connected_source (source_host cfg) (source_port cfg),
        Connected_target (target_host cfg) (target_port cfg), Found_keys total] @ ms)"
    by (auto simp add: init_state_def)
  with fin show "\<exists>ms. main_events r =
      map Print ms @ [Thread_start, Print Migration_completed, Thread_join]"
    unfolding main_events_def by (metis mstate.select_convs(1) mstate.update_convs(1) mstate.surjective)
  from m fin show "(manifest r, thread_out r, thread_raised r) =
      process_large_keys fs (large_keys (final r)) src (large_key_file cfg)"
    by simp
next
  assume "raised r \<noteq> None"
  then obtain e where e: "raised r = Some e" by auto
  from migrate_redis_keys_aborted [OF assms e] obtain s where
    mt: "manifest r = None" "thread_out r = []" "thread_raised r = None"
    and fin: "final r = s\<lparr>events := events s @ [Print (handler e)]\<rparr>"
    and s: "(dbsize src = Inl e \<and> s = init_state cfg t)
              \<or> (\<exists>total. dbsize src = Inr total
                    \<and> scan_loop fuel src ex cfg 0
                        ((init_state cfg t)\<lparr>events := events (init_state cfg t)
                            @ [Print (Found_keys total)]\<rparr>) = Some (Some e, s))"
    by blast
  from s have "\<exists>ms. events s = map Print ms"
  proof
    assume "dbsize src = Inl e \<and> s = init_state cfg t"
    then have "events s = map Print [Connected_source (source_host cfg) (source_port cfg),
        Connected_target (target_host cfg) (target_port cfg)]"
      by (simp add: init_state_def)
    then show ?thesis by blast
  next
    assume "\<exists>total. dbsize src = Inr total
                    \<and> scan_loop fuel src ex cfg 0
                        ((init_state cfg t)\<lparr>events := events (init_state cfg t)
                            @ [Print (Found_keys total)]\<rparr>) = Some (Some e, s)"
    then obtain total where loop: "scan_loop fuel src ex cfg 0
                        ((init_state cfg t)\<lparr>events := events (init_state cfg t)
                            @ [Print (Found_keys total)]\<rparr>) = Some (Some e, s)"
      by blast
    from scan_loop_prints [OF loop] obtain ms where
      "events s = map Print ([Connected_source (source_host cfg) (source_port cfg),
        Connected_target (target_host cfg) (target_port cfg), Found_keys total] @ ms)"
      by (auto simp add: init_state_def)
    then show ?thesis by blast
  qed
  then obtain ms where "events s = map Print ms" by blast
  with fin have "main_events r = map Print (ms @ [handler e])"
    by (simp add: main_events_def)
  then show "\<exists>ms. main_events r = map Print ms" by blast
  from mt show "manifest r = None" and "thread_out r = []" and "thread_raised r = None"
    by simp_all
qed

theorem thread_after_main_pass_witness:
  "(\<exists>r. migrate_redis_keys 5 demo_source accept_all ok_fs demo_config () = Some r
        \<and> raised r = None
        \<and> (\<exists>ms. main_events r =
               map Print ms @ [Thread_start, Print Migration_completed, Thread_join])
        \<and> (manifest r, thread_out r, thread_raised r) =
            process_large_keys ok_fs (large_keys (final r)) demo_source ''large_keys.txt''
        \<and> manifest r =
            Some [\<lparr>m_key = ''b'', m_type = ''string'', m_ttl = 60000, m_size = 20971520\<rparr>])
   \<and> (\<exists>r. migrate_redis_keys 5 two_batch_source (kv_execute refuses_a) ok_fs demo_config Map.empty
           = Some r
        \<and> raised r \<noteq> None
        \<and> (\<exists>ms. main_events r = map Print ms) \<and> manifest r = None \<and> thread_out r = []
        \<and> thread_raised r = None)"
proof -
  have "map_option raised (migrate_redis_keys 5 demo_source accept_all ok_fs demo_config ())
      = Some None"
    and mf: "map_option manifest (migrate_redis_keys 5 demo_source accept_all ok_fs demo_config ())
      = Some (Some [\<lparr>m_key = ''b'', m_type = ''string'', m_ttl = 60000, m_size = 20971520\<rparr>])"
    by code_simp+
  then obtain r where r: "migrate_redis_keys 5 demo_source accept_all ok_fs demo_config () = Some r"
    and n: "raised r = None"
    by auto
  have f: "large_key_file demo_config = ''large_keys.txt''"
    by (simp add: demo_config_def)
  have "map_option raised
      (migrate_redis_keys 5 two_batch_source (kv_execute refuses_a) ok_fs demo_config Map.empty)
      = Some (Some (RedisError ''ERR DUMP payload''))"
    by code_simp
  then obtain r' where
    r': "migrate_redis_keys 5 two_batch_source (kv_execute refuses_a) ok_fs demo_config Map.empty
        = Some r'"
    and n': "raised r' \<noteq> None"
    by auto
  from thread_after_main_pass [OF r] thread_after_main_pass [OF r'] r n r' n' f mf
  show ?thesis
    by auto
qed

section \<open>Running the migration twice\<close>

lemma kv_restore_replace:
  "r_replace c \<Longrightarrow> kv_restore ok c t = (kv_error ok c, t ++ kv_update ok c)"
  by (auto simp add: kv_restore_def kv_error_def kv_update_def split: option.splits)

lemma kv_apply_replace:
  "list_all r_replace cs \<Longrightarrow>
   \<exists>m. \<forall>err t. kv_apply ok cs (err, t) =
     (fold (\<lambda>c e. if e = None then kv_error ok c else e) cs err, t ++ m)"
proof (induction cs)
  case Nil
  have "\<forall>err t. kv_apply ok [] (err, t) =
     (fold (\<lambda>c e. if e = None then kv_error ok c else e) [] err, t ++ Map.empty)"
    by simp
  then show ?case by blast
next
  case (Cons c cs)
  then obtain m where m: "\<forall>err t. kv_apply ok cs (err, t) =
     (fold (\<lambda>c e. if e = None then kv_error ok c else e) cs err, t ++ m)"
    by auto
  from Cons.prems have "r_replace c" by simp
  then have "\<forall>err t. kv_apply ok (c # cs) (err, t) =
     (fold (\<lambda>c e. if e = None then kv_error ok c else e) (c # cs) err,
      t ++ (kv_update ok c ++ m))"
    by (simp add: kv_restore_replace m)
  then show ?case by blast
qed

lemma kv_execute_replace:
  assumes "list_all r_replace cs"
  shows "\<exists>e m. \<forall>t. pipe_execute (kv_execute ok) t cs = (e, t ++ m)"
proof -
  from kv_apply_replace [OF assms] obtain m where
    m: "\<forall>err t. kv_apply ok cs (err, t) =
     (fold (\<lambda>c e. if e = None then kv_error ok c else e) cs err, t ++ m)"
    by blast
  show ?thesis
  proof (cases "cs = [] \<or> list_ex (\<lambda>c. r_value c = None) cs")
    case True
    then have "\<forall>t. pipe_execute (kv_execute ok) t cs =
        (if cs = [] then None else Some (RedisError ''DataError''), t ++ Map.empty)"
      by (auto simp add: pipe_execute_def kv_execute_def)
    then show ?thesis by blast
  next
    case False
    then have "\<forall>t. pipe_execute (kv_execute ok) t cs =
        (fold (\<lambda>c e. if e = None then kv_error ok c else e) cs None, t ++ m)"
      by (simp add: pipe_execute_def kv_execute_def m)
    then show ?thesis by blast
  qed
qed

lemma migrate_key_target:
  "migrate_key src lim k s = (err, s') \<Longrightarrow>
   target s' = target s \<and> sent s' = sent s
   \<and> (\<exists>cs. pipe s' = pipe s @ cs \<and> list_all r_replace cs)
   \<and> (\<forall>t. migrate_key src lim k (s\<lparr>target := t\<rparr>) = (err, s'\<lparr>target := t\<rparr>))"
  by (auto simp add: migrate_key_def migrate_try_def Let_def
      split: sum.splits routed.splits if_splits)

lemma migrate_keys_target:
  "migrate_keys src lim ks s = (err, s') \<Longrightarrow>
   target s' = target s \<and> sent s' = sent s
   \<and> (\<exists>cs. pipe s' = pipe s @ cs \<and> list_all r_replace cs)
   \<and> (\<forall>t. migrate_keys src lim ks (s\<lparr>target := t\<rparr>) = (err, s'\<lparr>target := t\<rparr>))"
proof (induction ks arbitrary: s)
  case Nil
  then show ?case by auto
next
  case (Cons k ks)
  obtain e1 s1 where k: "migrate_key src lim k s = (e1, s1)"
    by (cases "migrate_key src lim k s")
  note k1 = migrate_key_target [OF k]
  show ?case
  proof (cases e1)
    case None
    with Cons.prems k have rest: "migrate_keys src lim ks s1 = (err, s')" by simp
    note r1 = Cons.IH [OF rest]
    from k1 r1 obtain cs1 cs2 where "pipe s1 = pipe s @ cs1" "list_all r_replace cs1"
      "pipe s' = pipe s1 @ cs2" "list_all r_replace cs2"
      by blast
    then have "pipe s' = pipe s @ (cs1 @ cs2) \<and> list_all r_replace (cs1 @ cs2)"
      by simp
    then have p: "\<exists>cs. pipe s' = pipe s @ cs \<and> list_all r_replace cs" by blast
    from k1 r1 None have "\<forall>t. migrate_keys src lim (k # ks) (s\<lparr>target := t\<rparr>) = (err, s'\<lparr>target := t\<rparr>)"
      by simp
    with k1 r1 p show ?thesis by simp
  next
    case (Some e)
    with Cons.prems k have "err = Some e" "s' = s1" by simp_all
    with k1 Some show ?thesis by simp
  qed
qed


lemma scan_loop_overlay:
  "scan_loop n src (kv_execute ok) cfg c s = Some (err, s') \<Longrightarrow> list_all r_replace (sent s) \<Longrightarrow>
   list_all r_replace (sent s')
   \<and> (\<exists>m. \<forall>t. scan_loop n src (kv_execute ok) cfg c (s\<lparr>target := t\<rparr>)
                 = Some (err, s'\<lparr>target := t ++ m\<rparr>))"
proof (induction n arbitrary: c s)
  case 0
  then show ?case by simp
next
  case (Suc n)
  show ?case
  proof (cases "scan src c (batch_size cfg)")
    case (Inl e)
    with Suc.prems have "\<forall>t. scan_loop (Suc n) src (kv_execute ok) cfg c (s\<lparr>target := t\<rparr>)
                 = Some (err, s'\<lparr>target := t ++ Map.empty\<rparr>)"
      by auto
    moreover from Inl Suc.prems have "list_all r_replace (sent s')" by auto
    ultimately show ?thesis by blast
  next
    case (Inr p)
    obtain c' keys where p: "p = (c', keys)" by (cases p)
    show ?thesis
    proof (cases "keys = []")
      case True
      with Inr p Suc.prems
      have "\<forall>t. scan_loop (Suc n) src (kv_execute ok) cfg c (s\<lparr>target := t\<rparr>)
                 = Some (err, s'\<lparr>target := t ++ Map.empty\<rparr>)"
        by auto
      moreover from True Inr p Suc.prems have "list_all r_replace (sent s')" by auto
      ultimately show ?thesis by blast
    next
      case False
      obtain e1 s1 where b: "migrate_keys src (size_limit cfg) keys (s\<lparr>pipe := []\<rparr>) = (e1, s1)"
        by (cases "migrate_keys src (size_limit cfg) keys (s\<lparr>pipe := []\<rparr>)")
      have sw: "s\<lparr>pipe := [], target := t\<rparr> = s\<lparr>target := t, pipe := []\<rparr>" for t
        by simp
      from migrate_keys_target [OF b]
      have ts1: "target s1 = target s" and ss1: "sent s1 = sent s"
        and ps1: "list_all r_replace (pipe s1)"
        and bt: "\<forall>t. migrate_keys src (size_limit cfg) keys (s\<lparr>target := t, pipe := []\<rparr>)
                   = (e1, s1\<lparr>target := t\<rparr>)"
        by (auto simp add: sw)
      show ?thesis
      proof (cases e1)
        case (Some e)
        with Suc.prems(1) Inr p False b have r: "err = Some e" "s' = s1\<lparr>pipe := []\<rparr>"
          by simp_all
        with Inr p False bt Some
        have "\<forall>t. scan_loop (Suc n) src (kv_execute ok) cfg c (s\<lparr>target := t\<rparr>)
                 = Some (err, s'\<lparr>target := t ++ Map.empty\<rparr>)"
          by simp
        moreover from r ss1 Suc.prems(2) have "list_all r_replace (sent s')" by simp
        ultimately show ?thesis by blast
      next
        case None
        from kv_execute_replace [OF ps1] obtain e2 m1 where
          x: "\<forall>t. pipe_execute (kv_execute ok) t (pipe s1) = (e2, t ++ m1)"
          by blast
        show ?thesis
        proof (cases e2)
          case (Some e)
          with Suc.prems(1) Inr p False b None x
          have r: "err = Some e" "s' = s1\<lparr>pipe := [], target := target s1 ++ m1\<rparr>"
            by simp_all
          with Inr p False bt None x Some
          have "\<forall>t. scan_loop (Suc n) src (kv_execute ok) cfg c (s\<lparr>target := t\<rparr>)
                 = Some (err, s'\<lparr>target := t ++ m1\<rparr>)"
            by simp
          moreover from r ss1 Suc.prems(2) have "list_all r_replace (sent s')" by simp
          ultimately show ?thesis by blast
        next
          case ok2: None
          let ?s2 = "\<lambda>t. s1\<lparr>pipe := [], pbar := pbar s1 + length keys,
                    sent := sent s1 @ pipe s1, target := t ++ m1\<rparr>"
          have sent2: "list_all r_replace (sent (?s2 (target s1)))"
            using ss1 ps1 Suc.prems(2) by simp
          show ?thesis
          proof (cases "c' = 0")
            case True
            with Suc.prems(1) Inr p False b None x ok2
            have r: "err = None" "s' = ?s2 (target s1)"
              by simp_all
            with Inr p False bt None x ok2 True
            have "\<forall>t. scan_loop (Suc n) src (kv_execute ok) cfg c (s\<lparr>target := t\<rparr>)
                 = Some (err, s'\<lparr>target := t ++ m1\<rparr>)"
              by simp
            moreover from r sent2 have "list_all r_replace (sent s')" by simp
            ultimately show ?thesis by blast
          next
            case nz: False
            with Suc.prems(1) Inr p False b None x ok2
            have rest: "scan_loop n src (kv_execute ok) cfg c' (?s2 (target s1)) = Some (err, s')"
              by simp
            from Suc.IH [OF rest sent2] obtain m2 where
              l: "list_all r_replace (sent s')"
              and m2: "\<forall>t. scan_loop n src (kv_execute ok) cfg c' ((?s2 (target s1))\<lparr>target := t\<rparr>)
                 = Some (err, s'\<lparr>target := t ++ m2\<rparr>)"
              by blast
            have "\<forall>t. scan_loop (Suc n) src (kv_execute ok) cfg c (s\<lparr>target := t\<rparr>)
                 = Some (err, s'\<lparr>target := t ++ (m1 ++ m2)\<rparr>)"
            proof
              fix t
              have "scan_loop (Suc n) src (kv_execute ok) cfg c (s\<lparr>target := t\<rparr>)
                  = scan_loop n src (kv_execute ok) cfg c' (?s2 t)"
                using Inr p False bt None x ok2 nz by simp
              also have "?s2 t = (?s2 (target s1))\<lparr>target := t ++ m1\<rparr>"
                by simp
              also have "scan_loop n src (kv_execute ok) cfg c' \<dots>
                  = Some (err, s'\<lparr>target := (t ++ m1) ++ m2\<rparr>)"
                using m2 by blast
              finally show "scan_loop (Suc n) src (kv_execute ok) cfg c (s\<lparr>target := t\<rparr>)
                 = Some (err, s'\<lparr>target := t ++ (m1 ++ m2)\<rparr>)"
                by simp
            qed
            with l show ?thesis by blast
          qed
        qed
      qed
    qed
  qed
qed


lemma migrate_redis_keys_overlay:
  assumes "migrate_redis_keys fuel src (kv_execute ok) fs cfg t = Some r"
  shows "list_all r_replace (sent (final r))
     \<and> (\<exists>m. \<forall>t'. \<exists>r'. migrate_redis_keys fuel src (kv_execute ok) fs cfg t' = Some r'
            \<and> final r' = (final r)\<lparr>target := t' ++ m\<rparr> \<and> raised r' = raised r
            \<and> manifest r' = manifest r \<and> thread_out r' = thread_out r)"
proof (cases "dbsize src")
  case (Inl e)
  with assms have r: "r = abort e (init_state cfg t)"
    by (simp add: migrate_redis_keys_def)
  have "\<forall>t'. \<exists>r'. migrate_redis_keys fuel src (kv_execute ok) fs cfg t' = Some r'
            \<and> final r' = (final r)\<lparr>target := t' ++ Map.empty\<rparr> \<and> raised r' = raised r
            \<and> manifest r' = manifest r \<and> thread_out r' = thread_out r"
    using Inl r by (simp add: migrate_redis_keys_def abort_def init_state_def)
  moreover have "list_all r_replace (sent (final r))"
    using r by (simp add: abort_def init_state_def)
  ultimately show ?thesis by blast
next
  case (Inr total)
  let ?s0 = "\<lambda>t. (init_state cfg t)\<lparr>events := events (init_state cfg t) @ [Print (Found_keys total)]\<rparr>"
  have s0: "?s0 t' = (?s0 t)\<lparr>target := t'\<rparr>" for t'
    by (simp add: init_state_def)
  from assms Inr obtain err s where
    loop: "scan_loop fuel src (kv_execute ok) cfg 0 (?s0 t) = Some (err, s)"
    by (auto simp add: migrate_redis_keys_def Let_def split: option.splits)
  have "list_all r_replace (sent (?s0 t))"
    by (simp add: init_state_def)
  from scan_loop_overlay [OF loop this] obtain m where
    l: "list_all r_replace (sent s)"
    and m: "\<forall>t'. scan_loop fuel src (kv_execute ok) cfg 0 ((?s0 t)\<lparr>target := t'\<rparr>)
         = Some (err, s\<lparr>target := t' ++ m\<rparr>)"
    by blast
  have m': "scan_loop fuel src (kv_execute ok) cfg 0 (?s0 t') = Some (err, s\<lparr>target := t' ++ m\<rparr>)"
    for t'
    using m s0 [of t'] by simp
  show ?thesis
  proof (cases err)
    case None
    with assms Inr loop
    have r: "r = \<lparr>final = s\<lparr>events := events s @
                      [Thread_start, Print Migration_completed, Thread_join]\<rparr>,
                 raised = None,
                 manifest = fst (process_large_keys fs (large_keys s) src (large_key_file cfg)),
                 thread_out =
                   fst (snd (process_large_keys fs (large_keys s) src (large_key_file cfg))),
                 thread_raised =
                   snd (snd (process_large_keys fs (large_keys s) src (large_key_file cfg)))\<rparr>"
      by (simp add: migrate_redis_keys_def Let_def split: prod.splits)
    have "\<forall>t'. \<exists>r'. migrate_redis_keys fuel src (kv_execute ok) fs cfg t' = Some r'
            \<and> final r' = (final r)\<lparr>target := t' ++ m\<rparr> \<and> raised r' = raised r
            \<and> manifest r' = manifest r \<and> thread_out r' = thread_out r"
      using Inr None m' r by (simp add: migrate_redis_keys_def Let_def split: prod.splits)
    moreover have "list_all r_replace (sent (final r))"
      using r l by simp
    ultimately show ?thesis by blast
  next
    case (Some e)
    with assms Inr loop have r: "r = abort e s"
      by (simp add: migrate_redis_keys_def Let_def)
    have "\<forall>t'. \<exists>r'. migrate_redis_keys fuel src (kv_execute ok) fs cfg t' = Some r'
            \<and> final r' = (final r)\<lparr>target := t' ++ m\<rparr> \<and> raised r' = raised r
            \<and> manifest r' = manifest r \<and> thread_out r' = thread_out r"
      using Inr Some m' r by (simp add: migrate_redis_keys_def Let_def abort_def)
    moreover have "list_all r_replace (sent (final r))"
      using r l by (simp add: abort_def)
    ultimately show ?thesis by blast
  qed
qed

text \<open>
  Claim C9. Every command the run sends carries \<open>replace=True\<close>. On the reference target
  a second run over the same source, started from the target the first run left, ends the
  same way as the first (the same exception or none, the same commands sent, the same
  manifest) and leaves the target exactly as it found it: each write replaces what the
  first run wrote.
\<close>

theorem restore_idempotent:
  assumes "migrate_redis_keys fuel src (kv_execute ok) fs cfg t = Some r"
  shows "list_all r_replace (sent (final r))
     \<and> (\<exists>r'. migrate_redis_keys fuel src (kv_execute ok) fs cfg (target (final r)) = Some r'
           \<and> target (final r') = target (final r) \<and> raised r' = raised r
           \<and> sent (final r') = sent (final r) \<and> manifest r' = manifest r)"
proof -
  from migrate_redis_keys_overlay [OF assms] obtain m where
    l: "list_all r_replace (sent (final r))"
    and m: "\<forall>t'. \<exists>r'. migrate_redis_keys fuel src (kv_execute ok) fs cfg t' = Some r'
            \<and> final r' = (final r)\<lparr>target := t' ++ m\<rparr> \<and> raised r' = raised r
            \<and> manifest r' = manifest r \<and> thread_out r' = thread_out r"
    by blast
  from m assms have "final r = (final r)\<lparr>target := t ++ m\<rparr>"
    by (metis option.inject)
  then have tr: "target (final r) = t ++ m"
    by (metis mstate.select_convs(6) mstate.surjective mstate.update_convs(6))
  from m obtain r' where
    r': "migrate_redis_keys fuel src (kv_execute ok) fs cfg (target (final r)) = Some r'"
    and f: "final r' = (final r)\<lparr>target := target (final r) ++ m\<rparr>"
    and e: "raised r' = raised r" "manifest r' = manifest r"
    by blast
  have "(t ++ m) ++ m = t ++ m"
    by (simp add: map_add_subsumed2)
  with f tr have "target (final r') = target (final r)" and "sent (final r') = sent (final r)"
    by simp_all
  with l r' e show ?thesis by blast
qed

theorem restore_idempotent_witness:
  "\<exists>r r'. migrate_redis_keys 5 demo_source (kv_execute any_payload) ok_fs demo_config Map.empty = Some r
     \<and> list_all r_replace (sent (final r))
     \<and> migrate_redis_keys 5 demo_source (kv_execute any_payload) ok_fs demo_config (target (final r))
         = Some r'
     \<and> target (final r') = target (final r) \<and> raised r' = raised r
     \<and> sent (final r') = sent (final r)
     \<and> target (final r) ''a'' = Some (''va'', 60000)
     \<and> target (final r) ''b'' = None
     \<and> target (final r) ''c'' = Some (''vc'', 0)"
proof -
  have "map_option raised
      (migrate_redis_keys 5 demo_source (kv_execute any_payload) ok_fs demo_config Map.empty) = Some None"
    by code_simp
  then obtain r where
    r: "migrate_redis_keys 5 demo_source (kv_execute any_payload) ok_fs demo_config Map.empty = Some r"
    by auto
  have "written (migrate_redis_keys 5 demo_source (kv_execute any_payload) ok_fs demo_config Map.empty)
        ''a'' = Some (''va'', 60000)"
    and "written (migrate_redis_keys 5 demo_source (kv_execute any_payload) ok_fs demo_config Map.empty)
        ''b'' = None"
    and "written (migrate_redis_keys 5 demo_source (kv_execute any_payload) ok_fs demo_config Map.empty)
        ''c'' = Some (''vc'', 0)"
    by code_simp+
  with r have w: "target (final r) ''a'' = Some (''va'', 60000)" "target (final r) ''b'' = None"
    "target (final r) ''c'' = Some (''vc'', 0)"
    by (simp_all add: written_def)
  from restore_idempotent [OF r] r w show ?thesis
    by blast
qed

section \<open>The end of the enumeration\<close>

text \<open>
  Claim C2. The loop has two exits: the cursor returned is 0 (line 94), or the batch
  returned is empty (line 72), whatever its cursor. A source may return an empty batch
  with a cursor that is not 0 while keys remain. In the example the first \<open>SCAN\<close>
  returns cursor 5 and no keys, and the \<open>SCAN\<close> at cursor 5 would return the key \<open>k\<close>:
  the run stops after the first call without an exception, it has scanned 0 keys, and
  \<open>k\<close> is neither transferred nor deferred.
\<close>

theorem empty_batch_ends_enumeration:
  "scan sparse_source 0 (batch_size demo_config) = Inr (5, [])
   \<and> scan sparse_source 5 (batch_size demo_config) = Inr (0, [''k''])
   \<and> enumerated 5 sparse_source demo_config 0 = Some (None, [])
   \<and> map_option raised (migrate_redis_keys 5 sparse_source accept_all ok_fs demo_config ())
       = Some None
   \<and> map_option scanned (migrate_redis_keys 5 sparse_source accept_all ok_fs demo_config ())
       = Some 0
   \<and> map_option transferred_names (migrate_redis_keys 5 sparse_source accept_all ok_fs demo_config ())
       = Some []
   \<and> map_option deferred_names (migrate_redis_keys 5 sparse_source accept_all ok_fs demo_config ())
       = Some []
   \<and> map_option main_events (migrate_redis_keys 5 sparse_source accept_all ok_fs demo_config ())
       = Some [Print (Connected_source ''src'' 6379), Print (Connected_target ''tgt'' 6380),
               Print (Found_keys 1), Thread_start, Print Migration_completed, Thread_join]"
  by code_simp

section \<open>A failing key whose name does not decode\<close>

text \<open>
  The handler of line 89 builds its message with \<open>key.decode()\<close>. For a failing key
  that is not UTF-8 the handler itself raises, outside any \<open>try\<close> of the loop: the run
  ends with \<open>UnicodeDecodeError\<close>, the batch is never sent, and the thread is never
  started. This is why the statements about caught failures ask for a name that decodes.
\<close>

lemma undecodable_key_ends_run:
  "utf8_valid (map of_char binary_key) = False
   \<and> map_option raised (migrate_redis_keys 5 binary_source accept_all ok_fs demo_config ())
       = Some (Some UnicodeDecodeError)
   \<and> map_option transferred_names (migrate_redis_keys 5 binary_source accept_all ok_fs demo_config ())
       = Some []
   \<and> map_option manifest (migrate_redis_keys 5 binary_source accept_all ok_fs demo_config ())
       = Some None
   \<and> map_option main_events (migrate_redis_keys 5 binary_source accept_all ok_fs demo_config ())
       = Some [Print (Connected_source ''src'' 6379), Print (Connected_target ''tgt'' 6380),
               Print (Found_keys 3), Print (Other_error UnicodeDecodeError)]"
  by code_simp

section \<open>Fuel\<close>

text \<open>
  The fuel only bounds the number of \<open>SCAN\<close> calls: a result, once reached, stays the same
  with more fuel, and the run returns whenever the enumeration of the source ends within
  the fuel, whatever the target does.
\<close>

lemma scan_loop_more_fuel:
  "scan_loop n src ex cfg c s = Some x \<Longrightarrow> scan_loop (n + m) src ex cfg c s = Some x"
proof (induction n arbitrary: c s)
  case 0
  then show ?case by simp
next
  case (Suc n)
  then show ?case
    by (auto simp add: Let_def split: sum.splits prod.splits option.splits if_splits)
qed

lemma migrate_redis_keys_more_fuel:
  "migrate_redis_keys n src ex fs cfg t = Some r \<Longrightarrow>
   migrate_redis_keys (n + m) src ex fs cfg t = Some r"
  by (auto simp add: migrate_redis_keys_def Let_def scan_loop_more_fuel
      split: sum.splits option.splits prod.splits)


lemma scan_loop_returns:
  "enumerated n src cfg c = Some y \<Longrightarrow> \<exists>x. scan_loop n src ex cfg c s = Some x"
proof (induction n arbitrary: c s y)
  case 0
  then show ?case by simp
next
  case (Suc n)
  then show ?case
    by (auto simp add: Let_def split: sum.splits prod.splits option.splits if_splits)
qed

lemma migrate_redis_keys_returns:
  "enumerated n src cfg 0 = Some y \<Longrightarrow> \<exists>r. migrate_redis_keys n src ex fs cfg t = Some r"
proof -
  assume e: "enumerated n src cfg 0 = Some y"
  show ?thesis
  proof (cases "dbsize src")
    case (Inl e)
    then show ?thesis by (simp add: migrate_redis_keys_def)
  next
    case (Inr total)
    from scan_loop_returns [OF e] obtain x where
      "scan_loop n src ex cfg 0
         ((init_state cfg t)\<lparr>events := events (init_state cfg t) @ [Print (Found_keys total)]\<rparr>)
       = Some x"
      by blast
    with Inr show ?thesis
      by (cases x) (auto simp add: migrate_redis_keys_def Let_def split: option.splits prod.splits)
  qed
qed

section \<open>A manifest that cannot be opened, a key that has gone\<close>

text \<open>
  When the manifest file cannot be opened the thread ends with the exception of \<open>open\<close>
  after its first print; the main thread joins it and returns as after any other run.
\<close>

lemma unopened_manifest_run:
  "map_option raised (migrate_redis_keys 5 demo_source accept_all no_dir_fs no_dir_config ())
     = Some None
   \<and> map_option manifest (migrate_redis_keys 5 demo_source accept_all no_dir_fs no_dir_config ())
     = Some None
   \<and> map_option thread_out (migrate_redis_keys 5 demo_source accept_all no_dir_fs no_dir_config ())
     = Some [Processing_large_keys]
   \<and> map_option thread_raised
       (migrate_redis_keys 5 demo_source accept_all no_dir_fs no_dir_config ())
     = Some (Some (OtherError ''FileNotFoundError''))
   \<and> map_option main_events (migrate_redis_keys 5 demo_source accept_all no_dir_fs no_dir_config ())
     = Some [Print (Connected_source ''src'' 6379), Print (Connected_target ''tgt'' 6380),
             Print (Found_keys 3), Thread_start, Print Migration_completed, Thread_join]"
  by code_simp

text \<open>
  A key that has gone before it is serialized is queued with the value \<open>None\<close>; on the
  reference target the client refuses to encode it at \<open>pipe.execute()\<close>, and the run ends
  through the handler of \<open>redis.RedisError\<close> with nothing written.
\<close>

lemma gone_key_ends_run:
  "map_option raised
       (migrate_redis_keys 5 gone_source (kv_execute any_payload) ok_fs demo_config Map.empty)
     = Some (Some (RedisError ''DataError''))
   \<and> map_option main_events
       (migrate_redis_keys 5 gone_source (kv_execute any_payload) ok_fs demo_config Map.empty)
     = Some [Print (Connected_source ''src'' 6379), Print (Connected_target ''tgt'' 6380),
             Print (Found_keys 3), Print (Redis_error (RedisError ''DataError''))]
   \<and> written
       (migrate_redis_keys 5 gone_source (kv_execute any_payload) ok_fs demo_config Map.empty)
       ''c''
     = None"
  by code_simp

end
